theory Spec2Isabelle
  imports Complex_Main "HOL-Library.AList"
begin

section \<open>pyetrade.market: the ETrade market client\<close>

text \<open>
  A shallow embedding of \<^verbatim>\<open>src/pyetrade/market.py\<close>. Every method of
  \<^verbatim>\<open>ETradeMarket\<close> is a function on an explicit state (the client object and the
  sequence of log records and HTTP requests produced so far) that returns the new state
  together with either the exception raised or the value returned.
\<close>

subsection \<open>Exceptions\<close>

text \<open>
  The built-in exceptions the module can raise by itself, and the exceptions of the
  external collaborators (the OAuth transport, the XML and JSON decoders), which carry
  a description.
\<close>

datatype error =
    AssertionError
  | AttributeError
  | TypeError
  | KeyError string
  | ValueError
  | OverflowError
  | TransportError string
  | ParseError string

type_synonym 'a result = "error + 'a"

definition bind_e :: "'a result \<Rightarrow> ('a \<Rightarrow> 'b result) \<Rightarrow> 'b result" where
  "bind_e r f = (case r of Inl e \<Rightarrow> Inl e | Inr x \<Rightarrow> f x)"

text \<open>A list comprehension whose element expression may raise: the first exception wins.\<close>

fun map_e :: "('a \<Rightarrow> 'b result) \<Rightarrow> 'a list \<Rightarrow> 'b list result" where
  "map_e f [] = Inr []"
| "map_e f (x # xs) = bind_e (f x) (\<lambda>y. bind_e (map_e f xs) (\<lambda>ys. Inr (y # ys)))"

definition py_assert :: "bool \<Rightarrow> unit result" where
  "py_assert b = (if b then Inr () else Inl AssertionError)"

subsection \<open>Strings\<close>

text \<open>
  \<^verbatim>\<open>str.upper()\<close> and \<^verbatim>\<open>str.lower()\<close> on the ASCII letters. No string with a
  character outside ASCII lower-cases to \<^verbatim>\<open>"xml"\<close> or \<^verbatim>\<open>"json"\<close>, the only
  strings the module compares a lower-cased string with.
\<close>

definition lower_letters :: string where
  "lower_letters = ''abcdefghijklmnopqrstuvwxyz''"

definition upper_letters :: string where
  "upper_letters = ''ABCDEFGHIJKLMNOPQRSTUVWXYZ''"

definition upper_char :: "char \<Rightarrow> char" where
  "upper_char c = (case map_of (zip lower_letters upper_letters) c of None \<Rightarrow> c | Some d \<Rightarrow> d)"

definition lower_char :: "char \<Rightarrow> char" where
  "lower_char c = (case map_of (zip upper_letters lower_letters) c of None \<Rightarrow> c | Some d \<Rightarrow> d)"

definition str_upper :: "string \<Rightarrow> string" where
  "str_upper s = map upper_char s"

definition str_lower :: "string \<Rightarrow> string" where
  "str_lower s = map lower_char s"

text \<open>\<^verbatim>\<open>sep.join(xs)\<close>\<close>

fun join :: "string \<Rightarrow> string list \<Rightarrow> string" where
  "join sep [] = []"
| "join sep [x] = x"
| "join sep (x # y # ys) = x @ sep @ join sep (y # ys)"

text \<open>\<^verbatim>\<open>str(b)\<close> for a bool.\<close>

definition str_bool :: "bool \<Rightarrow> string" where
  "str_bool b = (if b then ''True'' else ''False'')"

subsection \<open>Formatting numbers\<close>

definition digit_char :: "nat \<Rightarrow> char" where
  "digit_char d = ''0123456789'' ! (d mod 10)"

text \<open>\<^verbatim>\<open>"%d" % n\<close> for a natural number: its decimal digits, most significant first.\<close>

function str_nat :: "nat \<Rightarrow> string" where
  "str_nat n = (if n < 10 then [digit_char n] else str_nat (n div 10) @ [digit_char (n mod 10)])"
  by pat_completeness auto
termination
  by (relation "measure id") auto

declare str_nat.simps [simp del]

text \<open>
  Reading decimal digits back: the number a string of digits denotes, most significant
  digit first, continuing from \<open>acc\<close>; \<open>None\<close> when a character is not a digit.
\<close>

fun digits_value :: "nat \<Rightarrow> string \<Rightarrow> nat option" where
  "digits_value acc [] = Some acc"
| "digits_value acc (c # cs) =
     (case map_of (zip ''0123456789'' [0, 1, 2, 3, 4, 5, 6, 7, 8, 9]) c of
        None \<Rightarrow> None
      | Some v \<Rightarrow> digits_value (10 * acc + v) cs)"

text \<open>\<^verbatim>\<open>"%d" % n\<close> for an integer.\<close>

definition str_int :: "int \<Rightarrow> string" where
  "str_int n = (if n < 0 then CHR 0x2D # str_nat (nat (- n)) else str_nat (nat n))"

text \<open>\<^verbatim>\<open>"%0wd" % n\<close> for a natural number: padded with zeros on the left to width w.\<close>

definition zero_pad :: "nat \<Rightarrow> nat \<Rightarrow> string" where
  "zero_pad w n = replicate (w - length (str_nat n)) (CHR ''0'') @ str_nat n"

text \<open>
  A finite binary floating-point number: the sign, and the magnitude
  \<open>mantissa * 2 ^ exponent\<close> as an exact dyadic rational. Every finite Python float
  is of this form (with a mantissa below \<open>2 ^ 53\<close>); a price is a finite number, so the
  infinities and NaN are not values of this type.
\<close>

datatype pyfloat = Float (negative: bool) (mantissa: nat) (exponent: int)

text \<open>The absolute value of the number, as a rational.\<close>

definition magnitude :: "pyfloat \<Rightarrow> rat" where
  "magnitude x =
     (if 0 \<le> exponent x then of_nat (mantissa x) * 2 ^ nat (exponent x)
      else of_nat (mantissa x) / 2 ^ nat (- exponent x))"

text \<open>
  The magnitude times one hundred, rounded to the nearest integer, a tie going to the
  even one: the correctly rounded conversion that \<^verbatim>\<open>%f\<close> performs on the exact
  binary value.
\<close>

definition round_half_even :: "nat \<Rightarrow> nat \<Rightarrow> nat" where
  "round_half_even p q =
     (let d = p div q; r = p mod q
      in if 2 * r > q \<or> (2 * r = q \<and> odd d) then d + 1 else d)"

definition hundredths :: "pyfloat \<Rightarrow> nat" where
  "hundredths x =
     (if exponent x \<ge> 0 then 100 * mantissa x * 2 ^ nat (exponent x)
      else round_half_even (100 * mantissa x) (2 ^ nat (- exponent x)))"

text \<open>\<^verbatim>\<open>"%0.2f" % x\<close>: no minimum width, two digits after the point.\<close>

definition format_2f :: "pyfloat \<Rightarrow> string" where
  "format_2f x =
     (let h = hundredths x
      in (if negative x then ''-'' else '''') @ str_nat (h div 100) @ ''.'' @
         [digit_char (h mod 100 div 10), digit_char (h mod 10)])"

subsection \<open>Decoded responses\<close>

text \<open>
  The values the decoders produce: \<^verbatim>\<open>xmltodict.parse\<close> gives nested dicts with
  string keys, lists (for a repeated element), strings and \<^verbatim>\<open>None\<close> (for an empty
  element); the JSON decoder also gives numbers and booleans. A dict is an association
  list in insertion order.
\<close>

datatype pyval =
    PyNone
  | PyBool bool
  | PyInt int
  | PyFloat pyfloat
  | PyStr string
  | PyList "pyval list"
  | PyDict "(string \<times> pyval) list"

text \<open>\<^verbatim>\<open>v[key]\<close> with a string key: only a dict can be subscripted by a string.\<close>

fun getitem :: "pyval \<Rightarrow> string \<Rightarrow> pyval result" where
  "getitem (PyDict kvs) k = (case map_of kvs k of None \<Rightarrow> Inl (KeyError k) | Some v \<Rightarrow> Inr v)"
| "getitem v k = Inl TypeError"

text \<open>
  \<^verbatim>\<open>for i in v\<close>: a list gives its elements, a dict its keys, a string its
  characters; nothing else is iterable.
\<close>

fun py_iter :: "pyval \<Rightarrow> pyval list result" where
  "py_iter (PyList xs) = Inr xs"
| "py_iter (PyDict kvs) = Inr (map (\<lambda>kv. PyStr (fst kv)) kvs)"
| "py_iter (PyStr s) = Inr (map (\<lambda>c. PyStr [c]) s)"
| "py_iter v = Inl TypeError"

text \<open>
  \<^verbatim>\<open>int(v)\<close>. How the built-in reads a string as a decimal literal is a parameter
  \<open>int_of_str\<close> (\<open>None\<close> where it raises \<^verbatim>\<open>ValueError\<close>); a float is truncated
  towards zero.
\<close>

definition trunc_float :: "pyfloat \<Rightarrow> int" where
  "trunc_float x =
     (let m = (if exponent x \<ge> 0 then mantissa x * 2 ^ nat (exponent x)
               else mantissa x div 2 ^ nat (- exponent x))
      in if negative x then - int m else int m)"

fun py_int :: "(string \<Rightarrow> int option) \<Rightarrow> pyval \<Rightarrow> int result" where
  "py_int int_of_str (PyStr s) = (case int_of_str s of None \<Rightarrow> Inl ValueError | Some n \<Rightarrow> Inr n)"
| "py_int int_of_str (PyInt n) = Inr n"
| "py_int int_of_str (PyBool b) = Inr (if b then 1 else 0)"
| "py_int int_of_str (PyFloat x) = Inr (trunc_float x)"
| "py_int int_of_str v = Inl TypeError"

subsection \<open>Calendar dates\<close>

text \<open>
  \<^verbatim>\<open>datetime.date(year, month, day)\<close>: an argument that does not fit a C int raises
  \<^verbatim>\<open>OverflowError\<close>, a date that does not exist raises \<^verbatim>\<open>ValueError\<close>.
\<close>

record date =
  year :: nat
  month :: nat
  day :: nat

definition is_leap :: "nat \<Rightarrow> bool" where
  "is_leap y = (y mod 4 = 0 \<and> (y mod 100 \<noteq> 0 \<or> y mod 400 = 0))"

definition days_in_month :: "nat \<Rightarrow> nat \<Rightarrow> nat" where
  "days_in_month y m =
     (if m = 2 then (if is_leap y then 29 else 28)
      else if m \<in> set [4, 6, 9, 11] then 30 else 31)"

definition fits_c_int :: "int \<Rightarrow> bool" where
  "fits_c_int x = (- (2 ^ 31) \<le> x \<and> x < 2 ^ 31)"

definition dt_date :: "int \<Rightarrow> int \<Rightarrow> int \<Rightarrow> date result" where
  "dt_date y m d =
     (if \<not> (fits_c_int y \<and> fits_c_int m \<and> fits_c_int d) then Inl OverflowError
      else if 1 \<le> y \<and> y \<le> 9999 \<and> 1 \<le> m \<and> m \<le> 12 \<and>
              1 \<le> d \<and> d \<le> int (days_in_month (nat y) (nat m))
      then Inr \<lparr>year = nat y, month = nat m, day = nat d\<rparr>
      else Inl ValueError)"

subsection \<open>The client object, the collaborators and the state\<close>

text \<open>
  \<^verbatim>\<open>OAuth1Session(client_key, client_secret, resource_owner_key,
  resource_owner_secret, signature_type="AUTH_HEADER")\<close>: the session is what it was
  constructed from; what the library keeps inside it is not part of the model.
\<close>

record OAuth1Session =
  session_client_key :: string
  session_client_secret :: string
  session_resource_owner_key :: string
  session_resource_owner_secret :: string
  signature_type :: string

record ETradeMarket =
  client_key :: string
  client_secret :: string
  resource_owner_key :: string
  resource_owner_secret :: string
  dev_environment :: bool
  base_url :: string
  session :: OAuth1Session

text \<open>\<^verbatim>\<open>ETradeMarket.__init__\<close>\<close>

definition init :: "string \<Rightarrow> string \<Rightarrow> string \<Rightarrow> string \<Rightarrow> bool \<Rightarrow> ETradeMarket" where
  "init ck cs rok ros dev =
     (let suffix = (if dev then ''apisb'' else ''api'')
      in \<lparr>client_key = ck, client_secret = cs,
          resource_owner_key = rok, resource_owner_secret = ros,
          dev_environment = dev,
          base_url = ''https://'' @ suffix @ ''.etrade.com/v1/market/'',
          session = \<lparr>session_client_key = ck, session_client_secret = cs,
                     session_resource_owner_key = rok, session_resource_owner_secret = ros,
                     signature_type = ''AUTH_HEADER''\<rparr>\<rparr>)"

text \<open>
  A response whose status passed \<^verbatim>\<open>raise_for_status()\<close>: its body
  (\<^verbatim>\<open>req.text\<close>) and what \<^verbatim>\<open>req.json()\<close> gives.
\<close>

record response =
  resp_text :: string
  resp_json :: "pyval result"

text \<open>
  The external collaborators. \<open>respond sess k url\<close> is the outcome of
  \<^verbatim>\<open>req = sess.get(url); req.raise_for_status()\<close> when \<open>k\<close> requests have been
  issued before this one: the response, or the exception of the transport. The server
  may answer the same URL differently each time. \<open>xml_parse\<close> is
  \<^verbatim>\<open>xmltodict.parse\<close>.
\<close>

record env =
  respond :: "OAuth1Session \<Rightarrow> nat \<Rightarrow> string \<Rightarrow> response result"
  xml_parse :: "string \<Rightarrow> pyval result"
  int_of_str :: "string \<Rightarrow> int option"

text \<open>What a call leaves behind: log records, and the URLs requested, in order.\<close>

datatype event =
    LogDebug string
  | LogWarning string
  | LogError string error
  | HttpGet string

record state =
  market :: ETradeMarket
  events :: "event list"

fun request_urls :: "event list \<Rightarrow> string list" where
  "request_urls [] = []"
| "request_urls (HttpGet url # es) = url # request_urls es"
| "request_urls (e # es) = request_urls es"

fun warnings :: "event list \<Rightarrow> string list" where
  "warnings [] = []"
| "warnings (LogWarning msg # es) = msg # warnings es"
| "warnings (e # es) = warnings es"

type_synonym 'a action = "state \<Rightarrow> state \<times> 'a result"

definition bind_m :: "'a action \<Rightarrow> ('a \<Rightarrow> 'b action) \<Rightarrow> 'b action" where
  "bind_m m f s = (case m s of (s', Inl e) \<Rightarrow> (s', Inl e) | (s', Inr x) \<Rightarrow> f x s')"

definition lift_m :: "'a result \<Rightarrow> 'a action" where
  "lift_m r s = (s, r)"

definition get_self :: "ETradeMarket action" where
  "get_self s = (s, Inr (market s))"

definition emit :: "event \<Rightarrow> unit action" where
  "emit ev s = (s\<lparr>events := events s @ [ev]\<rparr>, Inr ())"

text \<open>\<^verbatim>\<open>req = self.session.get(api_url); req.raise_for_status()\<close>\<close>

definition session_get :: "env \<Rightarrow> string \<Rightarrow> response action" where
  "session_get env api_url s =
     (s\<lparr>events := events s @ [HttpGet api_url]\<rparr>,
      respond env (session (market s)) (length (request_urls (events s))) api_url)"

subsection \<open>look_up_product\<close>

text \<open>The value of \<^verbatim>\<open>api_url\<close>.\<close>

definition lookup_url :: "ETradeMarket \<Rightarrow> string \<Rightarrow> string \<Rightarrow> string" where
  "lookup_url self search_str resp_format =
     base_url self @ ''lookup/'' @
     (if str_lower resp_format = ''xml'' then search_str else search_str @ ''.json'')"

definition look_up_product :: "env \<Rightarrow> string \<Rightarrow> string \<Rightarrow> pyval action" where
  "look_up_product env search_str resp_format =
     bind_m get_self (\<lambda>self.
       let api_url = lookup_url self search_str resp_format
       in bind_m (emit (LogDebug api_url)) (\<lambda>_.
          bind_m (session_get env api_url) (\<lambda>req.
          bind_m (emit (LogDebug (resp_text req))) (\<lambda>_.
          lift_m (if str_lower resp_format = ''xml'' then xml_parse env (resp_text req)
                  else resp_json req)))))"

subsection \<open>get_quote\<close>

definition detail_flags :: "string list" where
  "detail_flags = [''fundamental'', ''intraday'', ''options'', ''week_52'', ''all'', ''mf_detail'']"

text \<open>The list \<^verbatim>\<open>args\<close> of query arguments, as the three \<^verbatim>\<open>if\<close> statements fill it.\<close>

definition quote_args :: "string option \<Rightarrow> bool option \<Rightarrow> bool option \<Rightarrow> string list" where
  "quote_args detail_flag require_earnings_date skip_mini_options_check =
     (case detail_flag of None \<Rightarrow> [] | Some f \<Rightarrow> [''detailflag='' @ str_upper f]) @
     (if require_earnings_date = Some True then [''requireEarningsDate=true''] else []) @
     (case skip_mini_options_check of None \<Rightarrow> []
      | Some b \<Rightarrow> [''skipMiniOptionsCheck='' @ str_bool b])"

text \<open>
  The value of \<^verbatim>\<open>api_url\<close> when it is logged and requested: the base URL, the
  path with the symbols, and what the two \<^verbatim>\<open>+=\<close> statements append.
\<close>

definition quote_tail :: "string \<Rightarrow> string list \<Rightarrow> string" where
  "quote_tail resp_format args =
     (if str_lower resp_format = ''json'' then ''.json'' else []) @
     (if length args \<noteq> 0 then ''?'' @ join ''&'' args else [])"

definition quote_url :: "ETradeMarket \<Rightarrow> string list \<Rightarrow> string list \<Rightarrow> string \<Rightarrow> string" where
  "quote_url self symbols args resp_format =
     base_url self @ ''quote/'' @ join '','' (take 25 symbols) @ quote_tail resp_format args"

text \<open>
  The argument \<^verbatim>\<open>symbols\<close>: a sequence of strings, given as a list or as a tuple.
  Both have a length, a slice \<^verbatim>\<open>[:25]\<close> and can be joined.
\<close>

datatype pyseq = ListOf "string list" | TupleOf "string list"

fun seq_items :: "pyseq \<Rightarrow> string list" where
  "seq_items (ListOf xs) = xs"
| "seq_items (TupleOf xs) = xs"

text \<open>
  \<^verbatim>\<open>isinstance(symbols, list or tuple)\<close>: the expression \<^verbatim>\<open>list or tuple\<close>
  evaluates to \<^verbatim>\<open>list\<close>, so the test is \<^verbatim>\<open>isinstance(symbols, list)\<close> and a
  tuple fails it.
\<close>

fun isinstance_list_or_tuple :: "pyseq \<Rightarrow> bool" where
  "isinstance_list_or_tuple (ListOf xs) = True"
| "isinstance_list_or_tuple (TupleOf xs) = False"

text \<open>
  The two flags are \<^verbatim>\<open>True\<close>, \<^verbatim>\<open>False\<close> or \<^verbatim>\<open>None\<close>.
\<close>

definition get_quote ::
  "env \<Rightarrow> pyseq \<Rightarrow> string option \<Rightarrow> bool option \<Rightarrow> bool option \<Rightarrow> string \<Rightarrow> pyval action"
where
  "get_quote env symbols detail_flag require_earnings_date skip_mini_options_check resp_format =
     bind_m (lift_m (py_assert (detail_flag \<in> set (map Some detail_flags @ [None])))) (\<lambda>_.
     bind_m (lift_m (py_assert (require_earnings_date \<in> set [Some True, Some False, None]))) (\<lambda>_.
     bind_m (lift_m (py_assert (skip_mini_options_check \<in> set [Some True, Some False, None]))) (\<lambda>_.
     bind_m (lift_m (py_assert (isinstance_list_or_tuple symbols))) (\<lambda>_.
     bind_m (if length (seq_items symbols) > 25
             then emit (LogWarning (''get_quote asked for '' @ str_nat (length (seq_items symbols)) @
                                    '' requests; only first 25 returned''))
             else lift_m (Inr ())) (\<lambda>_.
     bind_m get_self (\<lambda>self.
       let args = quote_args detail_flag require_earnings_date skip_mini_options_check;
           api_url = quote_url self (seq_items symbols) args resp_format
       in bind_m (emit (LogDebug api_url)) (\<lambda>_.
          bind_m (session_get env api_url) (\<lambda>req.
          bind_m (emit (LogDebug (resp_text req))) (\<lambda>_.
          lift_m (if str_lower resp_format = ''xml'' then xml_parse env (resp_text req)
                  else resp_json req))))))))))"

subsection \<open>get_option_chains\<close>

text \<open>
  The assertions and the list \<^verbatim>\<open>args\<close>. An \<^verbatim>\<open>int\<close> has no method
  \<^verbatim>\<open>upper\<close>: with a count for \<^verbatim>\<open>noOfStrikes\<close>, evaluating
  \<^verbatim>\<open>noOfStrikes.upper()\<close> raises \<^verbatim>\<open>AttributeError\<close>.
\<close>

definition int_upper :: "int \<Rightarrow> int result" where
  "int_upper n = Inl AttributeError"

definition option_chains_args ::
  "string \<Rightarrow> date option \<Rightarrow> bool option \<Rightarrow> string option \<Rightarrow> pyfloat option \<Rightarrow> int option \<Rightarrow>
   string option \<Rightarrow> string option \<Rightarrow> string list result"
where
  "option_chains_args underlier expiry_date skipAdjusted chainType strikePriceNear noOfStrikes
       optionCategory priceType =
     bind_e (py_assert (chainType \<in> set [Some ''put'', Some ''call'', Some ''callput'', None])) (\<lambda>_.
     bind_e (py_assert (optionCategory \<in> set [Some ''standard'', Some ''all'', Some ''mini'', None])) (\<lambda>_.
     bind_e (py_assert (priceType \<in> set [Some ''atmn'', Some ''all'', None])) (\<lambda>_.
     bind_e (py_assert (skipAdjusted \<in> set [Some True, Some False, None])) (\<lambda>_.
     bind_e (case noOfStrikes of None \<Rightarrow> Inr []
             | Some n \<Rightarrow> bind_e (int_upper n) (\<lambda>u. Inr [''noOfStrikes='' @ str_int u])) (\<lambda>strikes.
     Inr ([''symbol='' @ underlier] @
          (case expiry_date of None \<Rightarrow> []
           | Some d \<Rightarrow> [''expiryDay='' @ zero_pad 2 (day d) @ ''&expiryMonth='' @ zero_pad 2 (month d) @
                        ''&expiryYear='' @ zero_pad 4 (year d)]) @
          (case strikePriceNear of None \<Rightarrow> [] | Some x \<Rightarrow> [''strikePriceNear='' @ format_2f x]) @
          (case chainType of None \<Rightarrow> [] | Some c \<Rightarrow> [''chainType='' @ str_upper c]) @
          (case optionCategory of None \<Rightarrow> [] | Some c \<Rightarrow> [''optionCategory='' @ str_upper c]) @
          (case priceType of None \<Rightarrow> [] | Some c \<Rightarrow> [''priceType='' @ str_upper c]) @
          (case skipAdjusted of None \<Rightarrow> [] | Some b \<Rightarrow> [''skipAdjusted='' @ str_bool b]) @
          strikes))))))"

text \<open>The value of \<^verbatim>\<open>api_url\<close>.\<close>

definition option_chains_url :: "ETradeMarket \<Rightarrow> string list \<Rightarrow> string" where
  "option_chains_url self args = base_url self @ ''optionchains?'' @ join ''&'' args"

definition get_option_chains ::
  "env \<Rightarrow> string \<Rightarrow> date option \<Rightarrow> bool option \<Rightarrow> string option \<Rightarrow> pyfloat option \<Rightarrow> int option \<Rightarrow>
   string option \<Rightarrow> string option \<Rightarrow> pyval action"
where
  "get_option_chains env underlier expiry_date skipAdjusted chainType strikePriceNear noOfStrikes
       optionCategory priceType =
     bind_m (lift_m (option_chains_args underlier expiry_date skipAdjusted chainType
                       strikePriceNear noOfStrikes optionCategory priceType)) (\<lambda>args.
     bind_m get_self (\<lambda>self.
       let api_url = option_chains_url self args
       in bind_m (session_get env api_url) (\<lambda>req.
          bind_m (emit (LogDebug api_url)) (\<lambda>_.
          bind_m (emit (LogDebug (resp_text req))) (\<lambda>_.
          lift_m (xml_parse env (resp_text req)))))))"

subsection \<open>get_option_expire_date\<close>

text \<open>One element of the list comprehension that builds \<^verbatim>\<open>dates\<close>.\<close>

definition expiration_date :: "env \<Rightarrow> pyval \<Rightarrow> date result" where
  "expiration_date env this_date =
     bind_e (bind_e (getitem this_date ''year'') (py_int (int_of_str env))) (\<lambda>y.
     bind_e (bind_e (getitem this_date ''month'') (py_int (int_of_str env))) (\<lambda>m.
     bind_e (bind_e (getitem this_date ''day'') (py_int (int_of_str env))) (\<lambda>d.
     dt_date y m d)))"

definition expiration_dates :: "env \<Rightarrow> pyval \<Rightarrow> date list result" where
  "expiration_dates env q =
     bind_e (getitem q ''OptionExpireDateResponse'') (\<lambda>r.
     bind_e (getitem r ''ExpirationDate'') (\<lambda>ds.
     bind_e (py_iter ds) (map_e (expiration_date env))))"

text \<open>The value of \<^verbatim>\<open>api_url\<close>.\<close>

definition option_expire_date_url :: "ETradeMarket \<Rightarrow> string \<Rightarrow> string" where
  "option_expire_date_url self underlier =
     base_url self @ ''optionexpiredate?symbol='' @ underlier @ ''&expiryType=ALL''"

definition get_option_expire_date :: "env \<Rightarrow> string \<Rightarrow> date list action" where
  "get_option_expire_date env underlier =
     bind_m get_self (\<lambda>self.
       let api_url = option_expire_date_url self underlier
       in bind_m (emit (LogDebug api_url)) (\<lambda>_.
          bind_m (session_get env api_url) (\<lambda>req.
          bind_m (emit (LogDebug (resp_text req))) (\<lambda>_.
          bind_m (case xml_parse env (resp_text req) of
                    Inl err \<Rightarrow>
                      bind_m (emit (LogError (''XML parsing '' @ underlier @ '' text failed'') err))
                        (\<lambda>_. lift_m (Inl err))
                  | Inr q \<Rightarrow> lift_m (Inr q)) (\<lambda>q.
          lift_m (expiration_dates env q))))))"

subsection \<open>get_all_option_chains\<close>

text \<open>
  What the loop body stores for a date: from the decoded chain response \<open>q\<close>,
  \<^verbatim>\<open>[i['Put'] for i in chains] + [i['Call'] for i in chains]\<close>.
\<close>

definition puts_then_calls :: "pyval \<Rightarrow> pyval list result" where
  "puts_then_calls q =
     bind_e (bind_e (getitem q ''OptionChainResponse'') (\<lambda>r. getitem r ''OptionPair'')) (\<lambda>chains.
     bind_e (bind_e (py_iter chains) (map_e (\<lambda>i. getitem i ''Put''))) (\<lambda>puts.
     bind_e (bind_e (py_iter chains) (map_e (\<lambda>i. getitem i ''Call''))) (\<lambda>calls.
     Inr (puts @ calls))))"

text \<open>
  The \<^verbatim>\<open>for\<close> loop over the expiration dates. The dict \<^verbatim>\<open>rtn\<close> is an association
  list in insertion order; storing under a key already present replaces its value.
\<close>

fun all_chains_loop ::
  "env \<Rightarrow> string \<Rightarrow> date list \<Rightarrow> (date \<times> pyval list) list \<Rightarrow> (date \<times> pyval list) list action"
where
  "all_chains_loop env underlier [] rtn = lift_m (Inr rtn)"
| "all_chains_loop env underlier (this_expiry_date # rest) rtn =
     bind_m (get_option_chains env underlier (Some this_expiry_date) None None None None None None)
       (\<lambda>q.
     bind_m (lift_m (puts_then_calls q)) (\<lambda>entries.
     all_chains_loop env underlier rest (AList.update this_expiry_date entries rtn)))"

definition get_all_option_chains :: "env \<Rightarrow> string \<Rightarrow> (date \<times> pyval list) list action" where
  "get_all_option_chains env underlier =
     bind_m (get_option_expire_date env underlier) (\<lambda>expiration_dates.
     all_chains_loop env underlier expiration_dates [])"

subsection \<open>Notions used in the statements\<close>

text \<open>The number of requests issued so far.\<close>

definition requests_issued :: "state \<Rightarrow> nat" where
  "requests_issued s = length (request_urls (events s))"

text \<open>
  The URL of the chains endpoint for an underlier and an expiration date, all other
  parameters left at their defaults.
\<close>

definition chains_url :: "ETradeMarket \<Rightarrow> string \<Rightarrow> date \<Rightarrow> string" where
  "chains_url self underlier d =
     base_url self @ ''optionchains?symbol='' @ underlier @
     ''&expiryDay='' @ zero_pad 2 (day d) @ ''&expiryMonth='' @ zero_pad 2 (month d) @
     ''&expiryYear='' @ zero_pad 4 (year d)"

text \<open>The call of \<^verbatim>\<open>get_option_chains\<close> in the loop of the aggregator.\<close>

definition fetch_chain :: "env \<Rightarrow> string \<Rightarrow> date \<Rightarrow> pyval action" where
  "fetch_chain env underlier d = get_option_chains env underlier (Some d) None None None None None None"

text \<open>
  What the chain fetch for date \<open>d\<close> gives when it is the request number \<open>k\<close>
  (counting from 0): the decoded response, or the exception of the transport or of the
  decoder.
\<close>

definition chain_reply :: "env \<Rightarrow> ETradeMarket \<Rightarrow> nat \<Rightarrow> string \<Rightarrow> date \<Rightarrow> pyval result" where
  "chain_reply env self k underlier d =
     bind_e (respond env (session self) k (chains_url self underlier d))
       (\<lambda>req. xml_parse env (resp_text req))"

text \<open>
  What a turn of the loop computes for date \<open>d\<close> when its chain fetch is the request
  number \<open>k\<close>: the puts, then the calls, of the decoded response, or the exception
  that ends the turn.
\<close>

definition chain_entries :: "env \<Rightarrow> ETradeMarket \<Rightarrow> nat \<Rightarrow> string \<Rightarrow> date \<Rightarrow> pyval list result" where
  "chain_entries env self k underlier d = bind_e (chain_reply env self k underlier d) puts_then_calls"

definition is_ok :: "'a result \<Rightarrow> bool" where
  "is_ok r = (case r of Inl e \<Rightarrow> False | Inr x \<Rightarrow> True)"

text \<open>
  The processing of date \<open>d\<close>, with its chain fetch as request number \<open>k\<close>,
  succeeds: the response arrives, decodes, and holds an \<^verbatim>\<open>OptionPair\<close> sequence
  whose elements each have a \<^verbatim>\<open>Put\<close> and a \<^verbatim>\<open>Call\<close>.
\<close>

definition chain_ok :: "env \<Rightarrow> ETradeMarket \<Rightarrow> nat \<Rightarrow> string \<Rightarrow> date \<Rightarrow> bool" where
  "chain_ok env self k underlier d = is_ok (chain_entries env self k underlier d)"

text \<open>An action leaves the client object as it found it.\<close>

definition keeps_market :: "'a action \<Rightarrow> bool" where
  "keeps_market m = (\<forall>s. market (fst (m s)) = market s)"

subsection \<open>A sample run\<close>

text \<open>
  A concrete server: the first request is answered with three expiration dates, every
  later one with a chain of two option pairs. The second server fails the chain request
  for the second date.
\<close>

definition read_decimal :: "string \<Rightarrow> int option" where
  "read_decimal s = (if s = [] then None else map_option int (digits_value 0 s))"

definition sample_date_entry :: "string \<Rightarrow> string \<Rightarrow> string \<Rightarrow> pyval" where
  "sample_date_entry y m d =
     PyDict [(''year'', PyStr y), (''month'', PyStr m), (''day'', PyStr d),
             (''expiryType'', PyStr ''MONTHLY'')]"

definition sample_dates :: pyval where
  "sample_dates =
     PyDict [(''OptionExpireDateResponse'',
       PyDict [(''ExpirationDate'',
         PyList [sample_date_entry ''2025'' ''1'' ''17'',
                 sample_date_entry ''2025'' ''2'' ''21'',
                 sample_date_entry ''2025'' ''3'' ''21''])])]"

definition sample_option :: "string \<Rightarrow> string \<Rightarrow> pyval" where
  "sample_option kind strike = PyDict [(''optionType'', PyStr kind), (''strikePrice'', PyStr strike)]"

definition sample_chain :: pyval where
  "sample_chain =
     PyDict [(''OptionChainResponse'',
       PyDict [(''OptionPair'',
         PyList [PyDict [(''Call'', sample_option ''CALL'' ''100''),
                         (''Put'', sample_option ''PUT'' ''100'')],
                 PyDict [(''Call'', sample_option ''CALL'' ''105''),
                         (''Put'', sample_option ''PUT'' ''105'')]])])]"

definition sample_parse :: "string \<Rightarrow> pyval result" where
  "sample_parse body =
     (if body = ''<dates/>'' then Inr sample_dates
      else if body = ''<chain/>'' then Inr sample_chain
      else Inl (ParseError ''syntax error''))"

definition sample_response :: "string \<Rightarrow> response" where
  "sample_response body = \<lparr>resp_text = body, resp_json = Inl (ParseError ''not JSON'')\<rparr>"

definition sample_env :: env where
  "sample_env =
     \<lparr>respond = (\<lambda>sess k url. if k = 0 then Inr (sample_response ''<dates/>'')
                               else Inr (sample_response ''<chain/>'')),
      xml_parse = sample_parse,
      int_of_str = read_decimal\<rparr>"

definition flaky_env :: env where
  "flaky_env =
     \<lparr>respond = (\<lambda>sess k url. if k = 0 then Inr (sample_response ''<dates/>'')
                               else if k = 2 then Inl (TransportError ''503 Server Error'')
                               else Inr (sample_response ''<chain/>'')),
      xml_parse = sample_parse,
      int_of_str = read_decimal\<rparr>"

text \<open>
  A third server: every chain has exactly one option pair, and the decoder gives a dict
  for an element that occurs once, not a list of one dict.
\<close>

definition single_pair_chain :: pyval where
  "single_pair_chain =
     PyDict [(''OptionChainResponse'',
       PyDict [(''OptionPair'',
         PyDict [(''Call'', sample_option ''CALL'' ''100''),
                 (''Put'', sample_option ''PUT'' ''100'')])])]"

definition single_pair_parse :: "string \<Rightarrow> pyval result" where
  "single_pair_parse body =
     (if body = ''<dates/>'' then Inr sample_dates
      else if body = ''<chain/>'' then Inr single_pair_chain
      else Inl (ParseError ''syntax error''))"

definition single_pair_env :: env where
  "single_pair_env =
     \<lparr>respond = (\<lambda>sess k url. if k = 0 then Inr (sample_response ''<dates/>'')
                               else Inr (sample_response ''<chain/>'')),
      xml_parse = single_pair_parse,
      int_of_str = read_decimal\<rparr>"

definition sample_symbols :: "string list" where
  "sample_symbols =
     [''S01'', ''S02'', ''S03'', ''S04'', ''S05'', ''S06'', ''S07'', ''S08'', ''S09'', ''S10'',
      ''S11'', ''S12'', ''S13'', ''S14'', ''S15'', ''S16'', ''S17'', ''S18'', ''S19'', ''S20'',
      ''S21'', ''S22'', ''S23'', ''S24'', ''S25'', ''S26'', ''S27'', ''S28'', ''S29'', ''S30'']"

definition sample_state :: state where
  "sample_state = \<lparr>market = init ''ck'' ''cs'' ''rok'' ''ros'' True, events = []\<rparr>"

definition sample_expiries :: "date list" where
  "sample_expiries =
     [\<lparr>year = 2025, month = 1, day = 17\<rparr>, \<lparr>year = 2025, month = 2, day = 21\<rparr>,
      \<lparr>year = 2025, month = 3, day = 21\<rparr>]"

section \<open>Properties\<close>

subsection \<open>Sequencing\<close>


lemma bind_e_simps [simp]:
  "bind_e (Inl e) f = Inl e" "bind_e (Inr x) f = f x"
  by (simp_all add: bind_e_def)

lemma bind_m_lift [simp]:
  "bind_m (lift_m (Inr x)) f s = f x s"
  "bind_m (lift_m (Inl e)) f s = (s, Inl e)"
  by (simp_all add: bind_m_def lift_m_def)

lemma bind_m_assoc [simp]: "bind_m (bind_m m f) g = bind_m m (\<lambda>x. bind_m (f x) g)"
  by (rule ext) (simp add: bind_m_def split: prod.splits sum.splits)

lemma bind_m_get_self [simp]: "bind_m get_self f s = f (market s) s"
  by (simp add: bind_m_def get_self_def)

lemma bind_m_emit [simp]: "bind_m (emit ev) f s = f () (s\<lparr>events := events s @ [ev]\<rparr>)"
  by (simp add: bind_m_def emit_def)

lemma bind_m_session_get:
  "bind_m (session_get env url) f s =
     (case respond env (session (market s)) (requests_issued s) url of
        Inl e \<Rightarrow> (s\<lparr>events := events s @ [HttpGet url]\<rparr>, Inl e)
      | Inr req \<Rightarrow> f req (s\<lparr>events := events s @ [HttpGet url]\<rparr>))"
  by (simp add: bind_m_def session_get_def requests_issued_def split: sum.splits)

lemma request_urls_append [simp]:
  "request_urls (es @ fs) = request_urls es @ request_urls fs"
  by (induction es rule: request_urls.induct) simp_all

lemma warnings_append [simp]:
  "warnings (es @ fs) = warnings es @ warnings fs"
  by (induction es rule: warnings.induct) simp_all

lemma default_args:
  "option_chains_args u (Some d) None None None None None None =
     Inr [''symbol='' @ u,
          ''expiryDay='' @ zero_pad 2 (day d) @ ''&expiryMonth='' @ zero_pad 2 (month d) @
          ''&expiryYear='' @ zero_pad 4 (year d)]"
  by (simp add: option_chains_args_def py_assert_def)

lemma default_url:
  "option_chains_url self
     [''symbol='' @ u,
      ''expiryDay='' @ zero_pad 2 (day d) @ ''&expiryMonth='' @ zero_pad 2 (month d) @
      ''&expiryYear='' @ zero_pad 4 (year d)] = chains_url self u d"
  by (simp add: option_chains_url_def chains_url_def)

lemma get_option_chains_default:
  "get_option_chains env u (Some d) None None None None None None s =
     (case respond env (session (market s)) (requests_issued s) (chains_url (market s) u d) of
        Inl e \<Rightarrow> (s\<lparr>events := events s @ [HttpGet (chains_url (market s) u d)]\<rparr>, Inl e)
      | Inr req \<Rightarrow>
          (s\<lparr>events := events s @ [HttpGet (chains_url (market s) u d),
                                    LogDebug (chains_url (market s) u d),
                                    LogDebug (resp_text req)]\<rparr>,
           xml_parse env (resp_text req)))"
  unfolding get_option_chains_def default_args
  by (simp only: bind_m_lift bind_m_get_self Let_def default_url bind_m_session_get)
     (simp add: lift_m_def split: sum.splits)

lemma get_option_expire_date_eq:
  "get_option_expire_date env u s =
     (let url = option_expire_date_url (market s) u in
      case respond env (session (market s)) (requests_issued s) url of
        Inl e \<Rightarrow> (s\<lparr>events := events s @ [LogDebug url, HttpGet url]\<rparr>, Inl e)
      | Inr req \<Rightarrow>
          (case xml_parse env (resp_text req) of
             Inl err \<Rightarrow>
               (s\<lparr>events := events s @ [LogDebug url, HttpGet url, LogDebug (resp_text req),
                                        LogError (''XML parsing '' @ u @ '' text failed'') err]\<rparr>,
                Inl err)
           | Inr q \<Rightarrow>
               (s\<lparr>events := events s @ [LogDebug url, HttpGet url, LogDebug (resp_text req)]\<rparr>,
                expiration_dates env q)))"
proof (cases "respond env (session (market s)) (requests_issued s) (option_expire_date_url (market s) u)")
  case (Inl e)
  then show ?thesis
    by (simp add: get_option_expire_date_def bind_m_session_get Let_def requests_issued_def)
next
  case (Inr req)
  then show ?thesis
    by (cases "xml_parse env (resp_text req)")
       (simp_all add: get_option_expire_date_def bind_m_session_get Let_def
          lift_m_def requests_issued_def)
qed

subsection \<open>The chain fetch and the loop of the aggregator\<close>

lemma fetch_chain_market: "market (fst (fetch_chain env u d s)) = market s"
  by (simp add: fetch_chain_def get_option_chains_default split: sum.splits)

lemma fetch_chain_requests:
  "request_urls (events (fst (fetch_chain env u d s))) =
     request_urls (events s) @ [chains_url (market s) u d]"
  by (simp add: fetch_chain_def get_option_chains_default split: sum.splits)

lemma fetch_chain_issued:
  "requests_issued (fst (fetch_chain env u d s)) = Suc (requests_issued s)"
  by (simp add: requests_issued_def fetch_chain_requests)

lemma fetch_chain_warnings:
  "warnings (events (fst (fetch_chain env u d s))) = warnings (events s)"
  by (simp add: fetch_chain_def get_option_chains_default split: sum.splits)

lemma fetch_chain_result:
  "snd (fetch_chain env u d s) = chain_reply env (market s) (requests_issued s) u d"
  by (simp add: fetch_chain_def get_option_chains_default chain_reply_def split: sum.splits)

text \<open>One turn of the loop: the fetch, the puts and calls, the store.\<close>

lemma loop_Cons:
  "all_chains_loop env u (d # ds) rtn s =
     (case chain_entries env (market s) (requests_issued s) u d of
        Inl e \<Rightarrow> (fst (fetch_chain env u d s), Inl e)
      | Inr entries \<Rightarrow>
          all_chains_loop env u ds (AList.update d entries rtn) (fst (fetch_chain env u d s)))"
proof -
  obtain s1 r where sr: "fetch_chain env u d s = (s1, r)"
    by (cases "fetch_chain env u d s")
  then have "r = chain_reply env (market s) (requests_issued s) u d"
    using fetch_chain_result [of env u d s] by simp
  with sr show ?thesis
    by (simp add: bind_m_def lift_m_def fetch_chain_def [symmetric] chain_entries_def
          split: sum.splits)
qed

lemma loop_Nil: "all_chains_loop env u [] rtn s = (s, Inr rtn)"
  by (simp add: lift_m_def)

lemma chain_ok_iff:
  "chain_ok env self k u d \<longleftrightarrow> (\<exists>entries. chain_entries env self k u d = Inr entries)"
  by (simp add: chain_ok_def is_ok_def split: sum.splits)

lemma loop_market: "market (fst (all_chains_loop env u ds rtn s)) = market s"
proof (induction ds arbitrary: rtn s)
  case Nil
  show ?case by (simp add: lift_m_def)
next
  case (Cons d ds)
  show ?case
    by (simp add: loop_Cons Cons.IH fetch_chain_market del: all_chains_loop.simps split: sum.splits)
qed

lemma loop_warnings: "warnings (events (fst (all_chains_loop env u ds rtn s))) = warnings (events s)"
proof (induction ds arbitrary: rtn s)
  case Nil
  show ?case by (simp add: lift_m_def)
next
  case (Cons d ds)
  show ?case
    by (simp add: loop_Cons Cons.IH fetch_chain_warnings del: all_chains_loop.simps split: sum.splits)
qed

text \<open>When every turn succeeds the loop returns, after one request per date.\<close>

lemma loop_success:
  assumes "\<forall>i<length ds. chain_ok env (market s) (requests_issued s + i) u (ds ! i)"
  shows "\<exists>s' rtn'. all_chains_loop env u ds rtn s = (s', Inr rtn') \<and>
           request_urls (events s') = request_urls (events s) @ map (chains_url (market s) u) ds"
  using assms
proof (induction ds arbitrary: rtn s)
  case Nil
  show ?case by (simp add: lift_m_def)
next
  case (Cons d ds)
  from Cons.prems have "chain_ok env (market s) (requests_issued s) u d"
    by force
  then obtain v where v: "chain_entries env (market s) (requests_issued s) u d = Inr v"
    by (auto simp: chain_ok_iff)
  let ?s1 = "fst (fetch_chain env u d s)"
  have "\<forall>i<length ds. chain_ok env (market ?s1) (requests_issued ?s1 + i) u (ds ! i)"
  proof (intro allI impI)
    fix i assume "i < length ds"
    then have "chain_ok env (market s) (requests_issued s + Suc i) u ((d # ds) ! Suc i)"
      using Cons.prems by (metis Suc_less_eq length_Cons)
    then show "chain_ok env (market ?s1) (requests_issued ?s1 + i) u (ds ! i)"
      by (simp add: fetch_chain_market fetch_chain_issued)
  qed
  from Cons.IH [OF this, of "AList.update d v rtn"]
  obtain s' rtn' where
    "all_chains_loop env u ds (AList.update d v rtn) ?s1 = (s', Inr rtn')"
    "request_urls (events s') = request_urls (events ?s1) @ map (chains_url (market ?s1) u) ds"
    by blast
  then show ?case
    by (simp add: loop_Cons v fetch_chain_market fetch_chain_requests del: all_chains_loop.simps)
qed

text \<open>The loop returns only when every turn succeeded.\<close>

lemma loop_complete:
  assumes "all_chains_loop env u ds rtn s = (s', Inr rtn')"
  shows "\<forall>i<length ds. chain_ok env (market s) (requests_issued s + i) u (ds ! i)"
  using assms
proof (induction ds arbitrary: rtn s)
  case Nil
  show ?case by simp
next
  case (Cons d ds)
  let ?s1 = "fst (fetch_chain env u d s)"
  from Cons.prems obtain v where v: "chain_entries env (market s) (requests_issued s) u d = Inr v"
    and rest: "all_chains_loop env u ds (AList.update d v rtn) ?s1 = (s', Inr rtn')"
    by (auto simp: loop_Cons simp del: all_chains_loop.simps split: sum.splits)
  have tl: "\<forall>i<length ds. chain_ok env (market s) (Suc (requests_issued s) + i) u (ds ! i)"
    using Cons.IH [OF rest] by (simp add: fetch_chain_market fetch_chain_issued)
  show ?case
  proof (intro allI impI)
    fix i assume i: "i < length (d # ds)"
    show "chain_ok env (market s) (requests_issued s + i) u ((d # ds) ! i)"
    proof (cases i)
      case 0
      with v show ?thesis by (auto simp: chain_ok_iff)
    next
      case (Suc j)
      with i tl show ?thesis by simp
    qed
  qed
qed

text \<open>The first turn that raises ends the loop with its exception.\<close>

lemma loop_failure:
  assumes "k < length ds"
    and "\<forall>i<k. chain_ok env (market s) (requests_issued s + i) u (ds ! i)"
    and "chain_entries env (market s) (requests_issued s + k) u (ds ! k) = Inl e"
  shows "\<exists>s'. all_chains_loop env u ds rtn s = (s', Inl e) \<and>
           request_urls (events s') =
             request_urls (events s) @ map (chains_url (market s) u) (take (Suc k) ds)"
  using assms
proof (induction ds arbitrary: rtn s k)
  case Nil
  then show ?case by simp
next
  case (Cons d ds)
  let ?s1 = "fst (fetch_chain env u d s)"
  show ?case
  proof (cases k)
    case 0
    with Cons.prems show ?thesis
      by (simp add: loop_Cons fetch_chain_requests del: all_chains_loop.simps)
  next
    case (Suc j)
    from Cons.prems Suc have "chain_ok env (market s) (requests_issued s) u d"
      by force
    then obtain v where v: "chain_entries env (market s) (requests_issued s) u d = Inr v"
      by (auto simp: chain_ok_iff)
    have j: "j < length ds" using Cons.prems Suc by simp
    have ok: "\<forall>i<j. chain_ok env (market ?s1) (requests_issued ?s1 + i) u (ds ! i)"
    proof (intro allI impI)
      fix i assume "i < j"
      then have "chain_ok env (market s) (requests_issued s + Suc i) u ((d # ds) ! Suc i)"
        using Cons.prems(2) Suc by (metis Suc_less_eq)
      then show "chain_ok env (market ?s1) (requests_issued ?s1 + i) u (ds ! i)"
        by (simp add: fetch_chain_market fetch_chain_issued)
    qed
    have bad: "chain_entries env (market ?s1) (requests_issued ?s1 + j) u (ds ! j) = Inl e"
      using Cons.prems(3) Suc by (simp add: fetch_chain_market fetch_chain_issued)
    from Cons.IH [OF j ok bad, of "AList.update d v rtn"]
    obtain s' where
      "all_chains_loop env u ds (AList.update d v rtn) ?s1 = (s', Inl e)"
      "request_urls (events s') =
         request_urls (events ?s1) @ map (chains_url (market ?s1) u) (take (Suc j) ds)"
      by blast
    then show ?thesis
      by (simp add: loop_Cons v Suc fetch_chain_market fetch_chain_requests
            del: all_chains_loop.simps)
  qed
qed

text \<open>The keys of the mapping: new dates are appended in the order they are processed.\<close>

lemma loop_keys:
  assumes "all_chains_loop env u ds rtn s = (s', Inr rtn')"
    and "distinct ds" and "set ds \<inter> set (map fst rtn) = {}"
  shows "map fst rtn' = map fst rtn @ ds"
  using assms
proof (induction ds arbitrary: rtn s)
  case Nil
  then show ?case by (simp add: lift_m_def)
next
  case (Cons d ds)
  let ?s1 = "fst (fetch_chain env u d s)"
  from Cons.prems(1) obtain v where
    rest: "all_chains_loop env u ds (AList.update d v rtn) ?s1 = (s', Inr rtn')"
    by (auto simp: loop_Cons simp del: all_chains_loop.simps split: sum.splits)
  have keys: "map fst (AList.update d v rtn) = map fst rtn @ [d]"
    using Cons.prems(3) by (simp add: update_keys)
  have "set ds \<inter> set (map fst (AList.update d v rtn)) = {}"
    using Cons.prems(2,3) by (auto simp: keys)
  from Cons.IH [OF rest _ this] Cons.prems(2) show ?case
    by (simp add: keys)
qed

lemma set_update_cases:
  "(k, v) \<in> set (AList.update d w al) \<Longrightarrow> (k, v) \<in> set al \<or> (k = d \<and> v = w)"
  by (induction al) (auto split: if_splits)

text \<open>The values of the mapping: each was computed in a turn of the loop for its key.\<close>

lemma loop_values:
  assumes "all_chains_loop env u ds rtn s = (s', Inr rtn')"
    and "(d, v) \<in> set rtn'"
  shows "(d, v) \<in> set rtn \<or>
         (\<exists>i<length ds. ds ! i = d \<and>
            chain_entries env (market s) (requests_issued s + i) u d = Inr v)"
  using assms
proof (induction ds arbitrary: rtn s)
  case Nil
  then show ?case by (simp add: lift_m_def)
next
  case (Cons d0 ds)
  let ?s1 = "fst (fetch_chain env u d0 s)"
  from Cons.prems(1) obtain v0 where
    v0: "chain_entries env (market s) (requests_issued s) u d0 = Inr v0"
    and rest: "all_chains_loop env u ds (AList.update d0 v0 rtn) ?s1 = (s', Inr rtn')"
    by (auto simp: loop_Cons simp del: all_chains_loop.simps split: sum.splits)
  from Cons.IH [OF rest Cons.prems(2)]
  consider (old) "(d, v) \<in> set (AList.update d0 v0 rtn)"
    | (new) i where "i < length ds" "ds ! i = d"
        "chain_entries env (market s) (Suc (requests_issued s) + i) u d = Inr v"
    by (auto simp: fetch_chain_market fetch_chain_issued)
  then show ?case
  proof cases
    case old
    then have "(d, v) \<in> set rtn \<or> (d = d0 \<and> v = v0)"
      by (rule set_update_cases)
    then show ?thesis
    proof
      assume "(d, v) \<in> set rtn"
      then show ?thesis by simp
    next
      assume "d = d0 \<and> v = v0"
      with v0 have "(d0 # ds) ! 0 = d \<and>
          chain_entries env (market s) (requests_issued s + 0) u d = Inr v"
        by simp
      then show ?thesis by (metis length_Cons zero_less_Suc)
    qed
  next
    case new
    then have "Suc i < length (d0 # ds) \<and> (d0 # ds) ! Suc i = d \<and>
        chain_entries env (market s) (requests_issued s + Suc i) u d = Inr v"
      by auto
    then show ?thesis by blast
  qed
qed

subsection \<open>The puts and the calls of a chain response\<close>

lemma map_e_Inr: "map_e f xs = Inr ys \<longleftrightarrow> list_all2 (\<lambda>x y. f x = Inr y) xs ys"
proof (induction xs arbitrary: ys)
  case Nil
  show ?case by auto
next
  case (Cons x xs)
  show ?case
  proof (cases "f x")
    case (Inl e)
    then show ?thesis by (auto simp: list_all2_Cons1)
  next
    case (Inr y)
    show ?thesis
    proof (cases "map_e f xs")
      case (Inl e)
      with Inr Cons.IH show ?thesis by (auto simp: list_all2_Cons1)
    next
      case r: (Inr zs)
      with Inr Cons.IH show ?thesis by (auto simp: list_all2_Cons1)
    qed
  qed
qed

lemma puts_then_calls_Inr:
  "puts_then_calls q = Inr v \<longleftrightarrow>
     (\<exists>r chains pairs puts calls.
        getitem q ''OptionChainResponse'' = Inr r \<and> getitem r ''OptionPair'' = Inr chains \<and>
        py_iter chains = Inr pairs \<and>
        list_all2 (\<lambda>i p. getitem i ''Put'' = Inr p) pairs puts \<and>
        list_all2 (\<lambda>i c. getitem i ''Call'' = Inr c) pairs calls \<and>
        v = puts @ calls)"
  unfolding puts_then_calls_def map_e_Inr [symmetric]
  by (auto simp: bind_e_def split: sum.splits)

text \<open>What the success of a turn of the loop amounts to.\<close>

lemma chain_ok_meaning:
  "chain_ok env self k u d \<longleftrightarrow>
     (\<exists>req q r chains pairs puts calls.
        respond env (session self) k (chains_url self u d) = Inr req \<and>
        xml_parse env (resp_text req) = Inr q \<and>
        getitem q ''OptionChainResponse'' = Inr r \<and> getitem r ''OptionPair'' = Inr chains \<and>
        py_iter chains = Inr pairs \<and>
        list_all2 (\<lambda>i p. getitem i ''Put'' = Inr p) pairs puts \<and>
        list_all2 (\<lambda>i c. getitem i ''Call'' = Inr c) pairs calls)"
proof -
  have "chain_ok env self k u d \<longleftrightarrow>
          (\<exists>req q v. respond env (session self) k (chains_url self u d) = Inr req \<and>
             xml_parse env (resp_text req) = Inr q \<and> puts_then_calls q = Inr v)"
    by (auto simp: chain_ok_iff chain_entries_def chain_reply_def bind_e_def split: sum.splits)
  then show ?thesis
    unfolding puts_then_calls_Inr by blast
qed

lemma two_pairs:
  assumes "getitem q ''OptionChainResponse'' = Inr r"
    and "getitem r ''OptionPair'' = Inr (PyList [pair1, pair2])"
    and "getitem pair1 ''Put'' = Inr P1" "getitem pair1 ''Call'' = Inr C1"
    and "getitem pair2 ''Put'' = Inr P2" "getitem pair2 ''Call'' = Inr C2"
  shows "puts_then_calls q = Inr [P1, P2, C1, C2]"
  using assms by (simp add: puts_then_calls_def)

text \<open>
  A dict where a list is expected (the decoder gives one for an element that occurs
  once) is iterated over its keys, and subscripting a key, a string, raises
  \<^verbatim>\<open>TypeError\<close>.
\<close>

lemma option_pair_dict:
  assumes "getitem q ''OptionChainResponse'' = Inr r"
    and "getitem r ''OptionPair'' = Inr (PyDict ((k, v) # kvs))"
  shows "puts_then_calls q = Inl TypeError"
  using assms by (simp add: puts_then_calls_def)

lemma expiration_date_dict:
  assumes "getitem q ''OptionExpireDateResponse'' = Inr r"
    and "getitem r ''ExpirationDate'' = Inr (PyDict ((k, v) # kvs))"
  shows "expiration_dates env q = Inl TypeError"
  using assms by (simp add: expiration_dates_def expiration_date_def)

subsection \<open>The two steps of the aggregator\<close>

lemma expire_date_market: "market (fst (get_option_expire_date env u s)) = market s"
  by (simp add: get_option_expire_date_eq Let_def split: sum.splits)

lemma expire_date_requests:
  "request_urls (events (fst (get_option_expire_date env u s))) =
     request_urls (events s) @ [option_expire_date_url (market s) u]"
  by (simp add: get_option_expire_date_eq Let_def split: sum.splits)

lemma expire_date_issued:
  "requests_issued (fst (get_option_expire_date env u s)) = Suc (requests_issued s)"
  by (simp add: requests_issued_def expire_date_requests)

lemma expire_date_warnings:
  "warnings (events (fst (get_option_expire_date env u s))) = warnings (events s)"
  by (simp add: get_option_expire_date_eq Let_def split: sum.splits)

lemma get_all_option_chains_eq:
  "get_all_option_chains env u s =
     (case snd (get_option_expire_date env u s) of
        Inl e \<Rightarrow> (fst (get_option_expire_date env u s), Inl e)
      | Inr dates \<Rightarrow> all_chains_loop env u dates [] (fst (get_option_expire_date env u s)))"
  by (cases "get_option_expire_date env u s")
     (simp add: get_all_option_chains_def bind_m_def split: sum.splits)

subsection \<open>The sample run\<close>

lemma sample_expiration_dates:
  "int_of_str env = read_decimal \<Longrightarrow> expiration_dates env sample_dates = Inr sample_expiries"
  by (simp add: expiration_dates_def sample_dates_def expiration_date_def
        sample_date_entry_def read_decimal_def dt_date_def fits_c_int_def days_in_month_def
        is_leap_def sample_expiries_def)

lemma sample_expire_run:
  "snd (get_option_expire_date sample_env ''AAPL'' sample_state) = Inr sample_expiries"
  by (simp add: get_option_expire_date_eq Let_def requests_issued_def sample_state_def
        sample_env_def sample_response_def sample_parse_def sample_expiration_dates)

lemma sample_puts_then_calls:
  "puts_then_calls sample_chain =
     Inr [sample_option ''PUT'' ''100'', sample_option ''PUT'' ''105'',
          sample_option ''CALL'' ''100'', sample_option ''CALL'' ''105'']"
  by (simp add: puts_then_calls_def sample_chain_def)

lemma sample_chain_reply:
  "0 < k \<Longrightarrow> chain_reply sample_env self k u d = Inr sample_chain"
  by (simp add: chain_reply_def sample_env_def sample_response_def sample_parse_def)

lemma sample_chain_entries:
  "0 < k \<Longrightarrow> chain_entries sample_env self k u d =
     Inr [sample_option ''PUT'' ''100'', sample_option ''PUT'' ''105'',
          sample_option ''CALL'' ''100'', sample_option ''CALL'' ''105'']"
  by (simp add: chain_entries_def sample_chain_reply sample_puts_then_calls)

lemma sample_chain_ok: "0 < k \<Longrightarrow> chain_ok sample_env self k u d"
  by (simp add: chain_ok_iff sample_chain_entries)

lemma sample_loop_run:
  "snd (all_chains_loop sample_env ''AAPL'' sample_expiries [] s0) =
     Inr (map (\<lambda>d. (d, [sample_option ''PUT'' ''100'', sample_option ''PUT'' ''105'',
                          sample_option ''CALL'' ''100'', sample_option ''CALL'' ''105'']))
            sample_expiries)"
  if "0 < requests_issued s0"
  using that
  by (simp add: sample_expiries_def loop_Cons loop_Nil sample_chain_entries
        fetch_chain_issued del: all_chains_loop.simps)

lemma sample_all_run:
  "snd (get_all_option_chains sample_env ''AAPL'' sample_state) =
     Inr (map (\<lambda>d. (d, [sample_option ''PUT'' ''100'', sample_option ''PUT'' ''105'',
                          sample_option ''CALL'' ''100'', sample_option ''CALL'' ''105'']))
            sample_expiries)"
  by (simp add: get_all_option_chains_eq sample_expire_run sample_loop_run expire_date_issued)

lemma flaky_expire_run:
  "snd (get_option_expire_date flaky_env ''AAPL'' sample_state) = Inr sample_expiries"
  by (simp add: get_option_expire_date_eq Let_def requests_issued_def sample_state_def
        flaky_env_def sample_response_def sample_parse_def sample_expiration_dates)

lemma flaky_first_ok: "k = 1 \<Longrightarrow> chain_ok flaky_env self k u d"
  by (simp add: chain_ok_iff chain_entries_def chain_reply_def flaky_env_def sample_response_def
        sample_parse_def sample_puts_then_calls)

lemma flaky_second_fails:
  "k = 2 \<Longrightarrow>
   chain_entries flaky_env self k u d = Inl (TransportError ''503 Server Error'')"
  by (simp add: chain_entries_def chain_reply_def flaky_env_def)

subsection \<open>The request builders\<close>

lemma look_up_product_eq:
  "look_up_product env search_str rf s =
     (let url = lookup_url (market s) search_str rf
      in case respond env (session (market s)) (requests_issued s) url of
           Inl e \<Rightarrow> (s\<lparr>events := events s @ [LogDebug url, HttpGet url]\<rparr>, Inl e)
         | Inr req \<Rightarrow>
             (s\<lparr>events := events s @ [LogDebug url, HttpGet url, LogDebug (resp_text req)]\<rparr>,
              if str_lower rf = ''xml'' then xml_parse env (resp_text req) else resp_json req))"
  by (simp add: look_up_product_def bind_m_session_get Let_def lift_m_def requests_issued_def
        split: sum.splits)

lemma bool_flag_legal: "(flag :: bool option) \<in> set [Some True, Some False, None]"
  by (cases flag) auto

lemma get_quote_eq:
  assumes "detail_flag \<in> set (map Some detail_flags @ [None])"
  shows "get_quote env (ListOf symbols) detail_flag red smoc rf s =
     (let s0 = (if length symbols > 25
                then s\<lparr>events := events s @
                       [LogWarning (''get_quote asked for '' @ str_nat (length symbols) @
                                    '' requests; only first 25 returned'')]\<rparr>
                else s);
          url = quote_url (market s) symbols (quote_args detail_flag red smoc) rf
      in case respond env (session (market s)) (requests_issued s) url of
           Inl e \<Rightarrow> (s0\<lparr>events := events s0 @ [LogDebug url, HttpGet url]\<rparr>, Inl e)
         | Inr req \<Rightarrow>
             (s0\<lparr>events := events s0 @ [LogDebug url, HttpGet url, LogDebug (resp_text req)]\<rparr>,
              if str_lower rf = ''xml'' then xml_parse env (resp_text req) else resp_json req))"
proof -
  have a: "py_assert (detail_flag \<in> set (map Some detail_flags @ [None])) = Inr ()"
    using assms by (simp add: py_assert_def)
  have b: "py_assert (flag \<in> set [Some True, Some False, None]) = Inr ()" for flag :: "bool option"
    using bool_flag_legal [of flag] by (simp only: py_assert_def if_True)
  have c: "py_assert (isinstance_list_or_tuple (ListOf symbols)) = Inr ()"
    by (simp add: py_assert_def)
  show ?thesis
    unfolding get_quote_def a b c
    by (simp add: bind_m_session_get Let_def lift_m_def requests_issued_def split: sum.splits)
qed


text \<open>A tuple of symbols fails the fourth assertion, whatever else is passed.\<close>

lemma get_quote_tuple:
  "get_quote env (TupleOf symbols) detail_flag red smoc rf s = (s, Inl AssertionError)"
proof -
  have b: "py_assert (flag \<in> set [Some True, Some False, None]) = Inr ()" for flag :: "bool option"
    using bool_flag_legal [of flag] by (simp only: py_assert_def if_True)
  have c: "py_assert (isinstance_list_or_tuple (TupleOf symbols)) = Inl AssertionError"
    by (simp add: py_assert_def)
  show ?thesis
    unfolding get_quote_def b c
    by (cases "detail_flag \<in> set (map Some detail_flags @ [None])") (simp_all add: py_assert_def)
qed

text \<open>
  With a count for \<^verbatim>\<open>noOfStrikes\<close>, with or without an expiration date and every
  other optional parameter absent, \<^verbatim>\<open>get_option_chains\<close> raises
  \<^verbatim>\<open>AttributeError\<close> while it builds the query arguments: no URL is built, nothing is
  logged and no request is issued.
\<close>

lemma no_of_strikes_always_raises:
  "get_option_chains env underlier expiry_date None None None (Some n) None None s =
     (s, Inl AttributeError)"
  by (simp add: get_option_chains_def option_chains_args_def py_assert_def int_upper_def)

lemma upper_detail_flags:
  "map str_upper detail_flags =
     [''FUNDAMENTAL'', ''INTRADAY'', ''OPTIONS'', ''WEEK_52'', ''ALL'', ''MF_DETAIL'']"
  by (simp add: detail_flags_def str_upper_def upper_char_def upper_letters_def lower_letters_def)

subsection \<open>Formatting a price\<close>

lemma digit_char_digit: "digit_char d \<in> set ''0123456789''"
proof -
  have small: "k \<in> {0, 1, 2, 3, 4, 5, 6, 7, 8, 9}" if "k < 10" for k :: nat
    using that by auto
  have "d mod 10 \<in> {0, 1, 2, 3, 4, 5, 6, 7, 8, 9}"
    by (rule small) simp
  then show ?thesis
    unfolding digit_char_def by auto
qed

lemma str_nat_digits: "set (str_nat n) \<subseteq> set ''0123456789''"
proof (induction n rule: str_nat.induct)
  case (1 n)
  show ?case
  proof (cases "n < 10")
    case True
    then show ?thesis
      using digit_char_digit [of n] by (subst str_nat.simps) simp
  next
    case False
    with 1 have "set (str_nat (n div 10)) \<subseteq> set ''0123456789''" by simp
    with False show ?thesis
      using digit_char_digit [of "n mod 10"] by (subst str_nat.simps) simp
  qed
qed

lemma str_nat_nonempty: "str_nat n \<noteq> []"
  by (subst str_nat.simps) simp

lemma round_half_even_nearest:
  assumes "0 < q"
  shows "2 * \<bar>int p - int (round_half_even p q) * int q\<bar> \<le> int q"
proof -
  define d where "d = p div q"
  define r where "r = p mod q"
  have p: "int p = int d * int q + int r"
    unfolding d_def r_def by (metis div_mult_mod_eq of_nat_add of_nat_mult)
  have r: "r < q" using assms by (simp add: r_def)
  show ?thesis
  proof (cases "2 * r > q \<or> (2 * r = q \<and> odd d)")
    case True
    then have "round_half_even p q = d + 1"
      by (simp add: round_half_even_def Let_def d_def r_def)
    with p r True show ?thesis by (auto simp: algebra_simps)
  next
    case False
    then have "round_half_even p q = d"
      by (simp add: round_half_even_def Let_def d_def r_def)
    with p r False show ?thesis by (auto simp: algebra_simps)
  qed
qed

lemma digits_value_append:
  "digits_value a (xs @ ys) =
     (case digits_value a xs of None \<Rightarrow> None | Some b \<Rightarrow> digits_value b ys)"
  by (induction xs arbitrary: a) (auto split: option.splits)

lemma digit_char_value:
  "map_of (zip ''0123456789'' [0, 1, 2, 3, 4, 5, 6, 7, 8, 9 :: nat]) (digit_char d) = Some (d mod 10)"
proof -
  have small: "k \<in> {0, 1, 2, 3, 4, 5, 6, 7, 8, 9}" if "k < 10" for k :: nat
    using that by auto
  have "d mod 10 \<in> {0, 1, 2, 3, 4, 5, 6, 7, 8, 9}"
    by (rule small) simp
  then show ?thesis
    unfolding digit_char_def by auto
qed

lemma digits_value_digit: "digits_value a [digit_char d] = Some (10 * a + d mod 10)"
  by (simp only: digits_value.simps digit_char_value option.case)

lemma digits_value_str_nat: "digits_value 0 (str_nat n) = Some n"
proof (induction n rule: str_nat.induct)
  case (1 n)
  show ?case
  proof (cases "n < 10")
    case True
    then show ?thesis
      by (subst str_nat.simps) (simp add: digits_value_digit del: digits_value.simps)
  next
    case False
    with 1 have "digits_value 0 (str_nat (n div 10)) = Some (n div 10)" by simp
    with False show ?thesis
      by (subst str_nat.simps)
         (simp add: digits_value_append digits_value_digit del: digits_value.simps)
  qed
qed

lemma digit_char_zero: "digit_char d = CHR ''0'' \<longleftrightarrow> d mod 10 = 0"
proof -
  have small: "k \<in> {0, 1, 2, 3, 4, 5, 6, 7, 8, 9}" if "k < 10" for k :: nat
    using that by auto
  have "d mod 10 \<in> {0, 1, 2, 3, 4, 5, 6, 7, 8, 9}"
    by (rule small) simp
  then show ?thesis
    unfolding digit_char_def by auto
qed

lemma str_nat_leading: "0 < n \<Longrightarrow> hd (str_nat n) \<noteq> CHR ''0''"
proof (induction n rule: str_nat.induct)
  case (1 n)
  show ?case
  proof (cases "n < 10")
    case True
    with 1(2) show ?thesis
      by (subst str_nat.simps) (simp add: digit_char_zero)
  next
    case False
    then have "0 < n div 10" by simp
    with 1(1) False have "hd (str_nat (n div 10)) \<noteq> CHR ''0''" by simp
    with False show ?thesis
      by (subst str_nat.simps) (simp add: str_nat_nonempty)
  qed
qed

lemma str_nat_canonical: "str_nat n = ''0'' \<or> hd (str_nat n) \<noteq> CHR ''0''"
proof (cases "n = 0")
  case True
  then show ?thesis by (simp add: str_nat.simps digit_char_def)
next
  case False
  then show ?thesis by (simp add: str_nat_leading)
qed

lemma round_half_even_tie:
  assumes "0 < q" and "2 * \<bar>int p - int (round_half_even p q) * int q\<bar> = int q"
  shows "even (round_half_even p q)"
proof -
  define d where "d = p div q"
  define r where "r = p mod q"
  have p: "int p = int d * int q + int r"
    unfolding d_def r_def by (metis div_mult_mod_eq of_nat_add of_nat_mult)
  have r: "r < q" using assms by (simp add: r_def)
  show ?thesis
  proof (cases "2 * r > q \<or> (2 * r = q \<and> odd d)")
    case True
    then have h: "round_half_even p q = d + 1"
      by (simp add: round_half_even_def Let_def d_def r_def)
    with assms(2) p r have "2 * (int q - int r) = int q"
      by (simp add: algebra_simps)
    then have "int (2 * r) = int q" by simp
    then have "2 * r = q" by (simp only: of_nat_eq_iff)
    with True h show ?thesis by simp
  next
    case False
    then have h: "round_half_even p q = d"
      by (simp add: round_half_even_def Let_def d_def r_def)
    with assms(2) p have "int (2 * r) = int q"
      by (simp add: algebra_simps)
    then have "2 * r = q" by (simp only: of_nat_eq_iff)
    with False h show ?thesis by simp
  qed
qed

lemma ratio_nearest:
  fixes p q h :: nat
  assumes q: "0 < q"
  shows "\<bar>(of_nat p :: rat) / of_nat q - of_nat h\<bar> = of_int \<bar>int p - int h * int q\<bar> / of_nat q"
proof -
  have "(of_nat p :: rat) / of_nat q - of_nat h = of_int (int p - int h * int q) / of_nat q"
    using q by (simp add: field_simps)
  then have "\<bar>(of_nat p :: rat) / of_nat q - of_nat h\<bar> =
      \<bar>of_int (int p - int h * int q) / of_nat q\<bar>"
    by (simp only:)
  also have "\<dots> = \<bar>of_int (int p - int h * int q)\<bar> / of_nat q"
    using q by (simp only: abs_divide abs_of_nat)
  also have "\<dots> = of_int \<bar>int p - int h * int q\<bar> / of_nat q"
    by (simp only: of_int_abs)
  finally show ?thesis .
qed

lemma hundredths_nearest_rat:
  "\<bar>100 * magnitude x - of_nat (hundredths x)\<bar> \<le> 1 / 2 \<and>
   (\<bar>100 * magnitude x - of_nat (hundredths x)\<bar> = 1 / 2 \<longrightarrow> even (hundredths x))"
proof (cases "0 \<le> exponent x")
  case True
  then show ?thesis
    by (simp add: magnitude_def hundredths_def)
next
  case False
  define q :: nat where "q = 2 ^ nat (- exponent x)"
  define p :: nat where "p = 100 * mantissa x"
  define h where "h = round_half_even p q"
  define a :: int where "a = \<bar>int p - int h * int q\<bar>"
  have q: "0 < q" by (simp add: q_def)
  have hx: "hundredths x = h"
    using False by (simp add: hundredths_def h_def p_def q_def)
  have mag: "100 * magnitude x = of_nat p / of_nat q"
    using False by (simp add: magnitude_def p_def q_def)
  have diff: "\<bar>100 * magnitude x - of_nat h\<bar> = of_int a / of_nat q"
    unfolding mag a_def by (rule ratio_nearest [OF q])
  have near: "2 * a \<le> int q"
    unfolding h_def a_def by (rule round_half_even_nearest [OF q])
  have qpos: "(0 :: rat) < of_nat q" using q by simp
  have le: "\<bar>100 * magnitude x - of_nat h\<bar> \<le> 1 / 2"
  proof -
    have "(of_int (2 * a) :: rat) \<le> of_int (int q)"
      using near by (simp only: of_int_le_iff)
    then have "2 * (of_int a :: rat) \<le> of_nat q" by simp
    then have "(of_int a :: rat) / of_nat q \<le> 1 / 2"
      using qpos by (simp add: field_simps)
    then show ?thesis by (simp only: diff)
  qed
  have tie: "even h" if t: "\<bar>100 * magnitude x - of_nat h\<bar> = 1 / 2"
  proof -
    from t have "(of_int a :: rat) / of_nat q = 1 / 2" by (simp only: diff)
    then have "2 * (of_int a :: rat) = of_nat q"
      using qpos by (simp add: field_simps)
    then have "(of_int (2 * a) :: rat) = of_int (int q)" by simp
    then have "2 * a = int q"
      by (simp only: of_int_eq_iff)
    then show ?thesis
      unfolding h_def a_def by (rule round_half_even_tie [OF q])
  qed
  from le tie show ?thesis by (simp add: hx)
qed

lemma recombine:
  fixes h m t u w :: nat
  shows "m = 10 * t + u \<Longrightarrow> h = 100 * w + m \<Longrightarrow> 10 * (10 * w + t) + u = h"
  by simp

lemma hundred_digits:
  "10 * (10 * (h div 100) + h mod 100 div 10 mod 10) + h mod 10 mod 10 = (h :: nat)"
proof -
  have a: "h mod 100 div 10 < 10"
    by (simp add: less_mult_imp_div_less)
  have d: "h mod 100 mod 10 = h mod 10"
    by (simp add: mod_mod_cancel)
  have c: "h mod 100 = 10 * (h mod 100 div 10) + h mod 10"
    unfolding d [symmetric] by simp
  have e: "h = 100 * (h div 100) + h mod 100"
    by simp
  have "10 * (10 * (h div 100) + h mod 100 div 10) + h mod 10 = h"
    by (rule recombine [OF c e])
  with a show ?thesis by simp
qed

lemma format_2f_value:
  "\<exists>whole d1 d2 h.
     format_2f x = (if negative x then ''-'' else []) @ whole @ ''.'' @ [d1, d2] \<and>
     digits_value 0 (whole @ [d1, d2]) = Some h \<and>
     whole \<noteq> [] \<and> (whole = ''0'' \<or> hd whole \<noteq> CHR ''0'') \<and>
     \<bar>100 * magnitude x - of_nat h\<bar> \<le> 1 / 2 \<and>
     (\<bar>100 * magnitude x - of_nat h\<bar> = 1 / 2 \<longrightarrow> even h)"
proof -
  define h where "h = hundredths x"
  define whole where "whole = str_nat (h div 100)"
  define d1 where "d1 = digit_char (h mod 100 div 10)"
  define d2 where "d2 = digit_char (h mod 10)"
  have f: "format_2f x = (if negative x then ''-'' else []) @ whole @ ''.'' @ [d1, d2]"
    by (simp add: format_2f_def Let_def h_def whole_def d1_def d2_def)
  have "digits_value 0 (whole @ [d1] @ [d2]) =
        Some (10 * (10 * (h div 100) + h mod 100 div 10 mod 10) + h mod 10 mod 10)"
    unfolding whole_def d1_def d2_def
    by (simp only: digits_value_append digits_value_str_nat digits_value_digit option.case)
  then have v: "digits_value 0 (whole @ [d1, d2]) = Some h"
    by (simp only: hundred_digits append_Cons append_Nil)
  have c: "whole = ''0'' \<or> hd whole \<noteq> CHR ''0''"
    unfolding whole_def by (rule str_nat_canonical)
  have e: "whole \<noteq> []"
    unfolding whole_def by (rule str_nat_nonempty)
  have n: "\<bar>100 * magnitude x - of_nat h\<bar> \<le> 1 / 2 \<and>
      (\<bar>100 * magnitude x - of_nat h\<bar> = 1 / 2 \<longrightarrow> even h)"
    unfolding h_def by (rule hundredths_nearest_rat)
  show ?thesis
    by (intro exI [of _ whole] exI [of _ d1] exI [of _ d2] exI [of _ h] conjI f v e c
          conjunct1 [OF n] conjunct2 [OF n])
qed

text \<open>
  Some values, as Python prints them: 0.125 and 0.375 are ties, and a negative number
  that rounds to zero keeps its sign.
\<close>

lemma format_2f_examples:
  "format_2f (Float False 1 (- 3)) = ''0.12''"
  "format_2f (Float False 3 (- 3)) = ''0.38''"
  "format_2f (Float True 1 (- 10)) = ''-0.00''"
  "format_2f (Float False 150 0) = ''150.00''"
  "format_2f (Float False 4341751515761869 (- 45)) = ''123.40''"
  by (simp_all add: format_2f_def hundredths_def round_half_even_def str_nat.simps digit_char_def
        Let_def)

subsection \<open>Lower-casing a response format\<close>

lemma lower_char_table:
  "lower_char c =
     (if c = CHR ''A'' then CHR ''a'' else if c = CHR ''B'' then CHR ''b''
      else if c = CHR ''C'' then CHR ''c'' else if c = CHR ''D'' then CHR ''d''
      else if c = CHR ''E'' then CHR ''e'' else if c = CHR ''F'' then CHR ''f''
      else if c = CHR ''G'' then CHR ''g'' else if c = CHR ''H'' then CHR ''h''
      else if c = CHR ''I'' then CHR ''i'' else if c = CHR ''J'' then CHR ''j''
      else if c = CHR ''K'' then CHR ''k'' else if c = CHR ''L'' then CHR ''l''
      else if c = CHR ''M'' then CHR ''m'' else if c = CHR ''N'' then CHR ''n''
      else if c = CHR ''O'' then CHR ''o'' else if c = CHR ''P'' then CHR ''p''
      else if c = CHR ''Q'' then CHR ''q'' else if c = CHR ''R'' then CHR ''r''
      else if c = CHR ''S'' then CHR ''s'' else if c = CHR ''T'' then CHR ''t''
      else if c = CHR ''U'' then CHR ''u'' else if c = CHR ''V'' then CHR ''v''
      else if c = CHR ''W'' then CHR ''w'' else if c = CHR ''X'' then CHR ''x''
      else if c = CHR ''Y'' then CHR ''y'' else if c = CHR ''Z'' then CHR ''z'' else c)"
  by (simp add: lower_char_def upper_letters_def lower_letters_def)

lemma lower_char_x: "lower_char c = CHR ''x'' \<longleftrightarrow> c = CHR ''x'' \<or> c = CHR ''X''"
  unfolding lower_char_table by (simp split: if_splits)

lemma lower_char_m: "lower_char c = CHR ''m'' \<longleftrightarrow> c = CHR ''m'' \<or> c = CHR ''M''"
  unfolding lower_char_table by (simp split: if_splits)

lemma lower_char_l: "lower_char c = CHR ''l'' \<longleftrightarrow> c = CHR ''l'' \<or> c = CHR ''L''"
  unfolding lower_char_table by (simp split: if_splits)

lemma lower_char_j: "lower_char c = CHR ''j'' \<longleftrightarrow> c = CHR ''j'' \<or> c = CHR ''J''"
  unfolding lower_char_table by (simp split: if_splits)

lemma lower_char_s: "lower_char c = CHR ''s'' \<longleftrightarrow> c = CHR ''s'' \<or> c = CHR ''S''"
  unfolding lower_char_table by (simp split: if_splits)

lemma lower_char_o: "lower_char c = CHR ''o'' \<longleftrightarrow> c = CHR ''o'' \<or> c = CHR ''O''"
  unfolding lower_char_table by (simp split: if_splits)

lemma lower_char_n: "lower_char c = CHR ''n'' \<longleftrightarrow> c = CHR ''n'' \<or> c = CHR ''N''"
  unfolding lower_char_table by (simp split: if_splits)

lemma xml_casings:
  "str_lower resp_format = ''xml'' \<longleftrightarrow>
     (\<exists>c0 c1 c2. resp_format = [c0, c1, c2] \<and> (c0 = CHR ''x'' \<or> c0 = CHR ''X'') \<and> (c1 = CHR ''m'' \<or> c1 = CHR ''M'') \<and> (c2 = CHR ''l'' \<or> c2 = CHR ''L''))"
proof -
  have "str_lower resp_format = ''xml'' \<longleftrightarrow>
     (\<exists>c0 c1 c2. resp_format = [c0, c1, c2] \<and> lower_char c0 = CHR ''x'' \<and> lower_char c1 = CHR ''m'' \<and> lower_char c2 = CHR ''l'')"
    unfolding str_lower_def by (simp only: map_eq_Cons_conv) blast
  then show ?thesis
    by (simp only: lower_char_x lower_char_m lower_char_l)
qed

lemma json_casings:
  "str_lower resp_format = ''json'' \<longleftrightarrow>
     (\<exists>c0 c1 c2 c3. resp_format = [c0, c1, c2, c3] \<and> (c0 = CHR ''j'' \<or> c0 = CHR ''J'') \<and> (c1 = CHR ''s'' \<or> c1 = CHR ''S'') \<and> (c2 = CHR ''o'' \<or> c2 = CHR ''O'') \<and> (c3 = CHR ''n'' \<or> c3 = CHR ''N''))"
proof -
  have "str_lower resp_format = ''json'' \<longleftrightarrow>
     (\<exists>c0 c1 c2 c3. resp_format = [c0, c1, c2, c3] \<and> lower_char c0 = CHR ''j'' \<and> lower_char c1 = CHR ''s'' \<and> lower_char c2 = CHR ''o'' \<and> lower_char c3 = CHR ''n'')"
    unfolding str_lower_def by (simp only: map_eq_Cons_conv) blast
  then show ?thesis
    by (simp only: lower_char_j lower_char_s lower_char_o lower_char_n)
qed

subsection \<open>The client object\<close>

lemma keeps_lift [simp]: "keeps_market (lift_m r)"
  by (simp add: keeps_market_def lift_m_def)

lemma keeps_get_self [simp]: "keeps_market get_self"
  by (simp add: keeps_market_def get_self_def)

lemma keeps_emit [simp]: "keeps_market (emit ev)"
  by (simp add: keeps_market_def emit_def)

lemma keeps_session_get [simp]: "keeps_market (session_get env url)"
  by (simp add: keeps_market_def session_get_def)

lemma keeps_bind: "keeps_market m \<Longrightarrow> (\<And>x. keeps_market (f x)) \<Longrightarrow> keeps_market (bind_m m f)"
  unfolding keeps_market_def bind_m_def
proof
  fix s
  assume m: "\<forall>s. market (fst (m s)) = market s" and f: "\<And>x. \<forall>s. market (fst (f x s)) = market s"
  obtain s1 r where sr: "m s = (s1, r)" by (cases "m s")
  with m [rule_format, of s] have "market s1 = market s" by simp
  with sr f show "market (fst (case m s of (s', Inl e) \<Rightarrow> (s', Inl e) | (s', Inr x) \<Rightarrow> f x s')) = market s"
    by (cases r) simp_all
qed

lemma keeps_look_up_product: "keeps_market (look_up_product env search_str resp_format)"
  unfolding look_up_product_def Let_def
  by (intro keeps_bind keeps_lift keeps_get_self keeps_emit keeps_session_get)

lemma keeps_get_quote: "keeps_market (get_quote env symbols detail_flag red smoc resp_format)"
  unfolding get_quote_def Let_def
  by (intro keeps_bind keeps_lift keeps_get_self keeps_emit keeps_session_get) simp

lemma keeps_get_option_chains:
  "keeps_market (get_option_chains env u ed sa ct sp ns oc pt)"
  unfolding get_option_chains_def Let_def
  by (intro keeps_bind keeps_lift keeps_get_self keeps_emit keeps_session_get)

lemma keeps_get_option_expire_date: "keeps_market (get_option_expire_date env u)"
  unfolding get_option_expire_date_def Let_def
  by (intro keeps_bind keeps_lift keeps_get_self keeps_emit keeps_session_get)
     (auto split: sum.splits intro!: keeps_bind)

lemma keeps_all_chains_loop: "keeps_market (all_chains_loop env u ds rtn)"
  by (induction ds arbitrary: rtn) (auto intro!: keeps_bind keeps_get_option_chains)

lemma keeps_get_all_option_chains: "keeps_market (get_all_option_chains env u)"
  unfolding get_all_option_chains_def
  by (intro keeps_bind keeps_get_option_expire_date keeps_all_chains_loop)

section \<open>The claims\<close>

subsection \<open>The aggregator\<close>

text \<open>
  When the expiration-date operation returns \<open>N\<close> distinct dates and every date is
  processed without an exception (its chain fetch, the request number \<open>1 + i\<close> for the
  \<open>i\<close>-th date, returns, and the decoded response holds an option-pair sequence
  whose elements each have a put and a call), \<^verbatim>\<open>get_all_option_chains\<close> returns
  a mapping whose keys are exactly those dates, each once and in the returned order,
  and it issues exactly \<open>1 + N\<close> requests: one to the expiration-date endpoint, then
  one to the chains endpoint per date, in the order of the dates.
\<close>

lemma all_option_chains_requests_and_keys:
  assumes "snd (get_option_expire_date env u s) = Inr dates"
    and "distinct dates"
    and "\<forall>i<length dates. chain_ok env (market s) (Suc (requests_issued s) + i) u (dates ! i)"
  shows "\<exists>rtn. snd (get_all_option_chains env u s) = Inr rtn \<and>
           map fst rtn = dates \<and>
           request_urls (events (fst (get_all_option_chains env u s))) =
             request_urls (events s) @
             option_expire_date_url (market s) u # map (chains_url (market s) u) dates \<and>
           requests_issued (fst (get_all_option_chains env u s)) =
             requests_issued s + 1 + length dates"
proof -
  let ?s1 = "fst (get_option_expire_date env u s)"
  have "\<forall>i<length dates. chain_ok env (market ?s1) (requests_issued ?s1 + i) u (dates ! i)"
    using assms(3) by (simp add: expire_date_market expire_date_issued)
  from loop_success [OF this, of "[]"] obtain s' rtn where
    run: "all_chains_loop env u dates [] ?s1 = (s', Inr rtn)"
    and urls: "request_urls (events s') =
                 request_urls (events ?s1) @ map (chains_url (market ?s1) u) dates"
    by blast
  have keys: "map fst rtn = dates"
    using loop_keys [OF run assms(2)] by simp
  have all: "get_all_option_chains env u s = (s', Inr rtn)"
    by (simp add: get_all_option_chains_eq assms(1) run)
  have "request_urls (events s') =
          request_urls (events s) @
          option_expire_date_url (market s) u # map (chains_url (market s) u) dates"
    using urls by (simp add: expire_date_market expire_date_requests)
  with all keys show ?thesis
    by (simp add: requests_issued_def)
qed

lemma all_option_chains_sample:
  "\<exists>rtn. snd (get_all_option_chains sample_env ''AAPL'' sample_state) = Inr rtn \<and>
     map fst rtn = sample_expiries \<and>
     request_urls (events (fst (get_all_option_chains sample_env ''AAPL'' sample_state))) =
       [''https://apisb.etrade.com/v1/market/optionexpiredate?symbol=AAPL&expiryType=ALL'',
        ''https://apisb.etrade.com/v1/market/optionchains?symbol=AAPL&expiryDay=17&expiryMonth=01&expiryYear=2025'',
        ''https://apisb.etrade.com/v1/market/optionchains?symbol=AAPL&expiryDay=21&expiryMonth=02&expiryYear=2025'',
        ''https://apisb.etrade.com/v1/market/optionchains?symbol=AAPL&expiryDay=21&expiryMonth=03&expiryYear=2025''] \<and>
     requests_issued (fst (get_all_option_chains sample_env ''AAPL'' sample_state)) = 4"
proof -
  have d: "distinct sample_expiries"
    by (simp add: sample_expiries_def)
  have ok: "\<forall>i<length sample_expiries.
      chain_ok sample_env (market sample_state) (Suc (requests_issued sample_state) + i) ''AAPL''
        (sample_expiries ! i)"
    by (simp add: sample_chain_ok)
  have n: "requests_issued sample_state = 0" "request_urls (events sample_state) = []"
    by (simp_all add: requests_issued_def sample_state_def)
  have urls: "option_expire_date_url (market sample_state) ''AAPL'' #
      map (chains_url (market sample_state) ''AAPL'') sample_expiries =
       [''https://apisb.etrade.com/v1/market/optionexpiredate?symbol=AAPL&expiryType=ALL'',
        ''https://apisb.etrade.com/v1/market/optionchains?symbol=AAPL&expiryDay=17&expiryMonth=01&expiryYear=2025'',
        ''https://apisb.etrade.com/v1/market/optionchains?symbol=AAPL&expiryDay=21&expiryMonth=02&expiryYear=2025'',
        ''https://apisb.etrade.com/v1/market/optionchains?symbol=AAPL&expiryDay=21&expiryMonth=03&expiryYear=2025'']"
    by (simp add: option_expire_date_url_def chains_url_def sample_state_def init_def
          sample_expiries_def zero_pad_def str_nat.simps digit_char_def)
  have len: "length sample_expiries = 3"
    by (simp add: sample_expiries_def)
  show ?thesis
    using all_option_chains_requests_and_keys [OF sample_expire_run d ok]
    unfolding n urls len by simp
qed

lemma single_pair_expire_run:
  "snd (get_option_expire_date single_pair_env ''AAPL'' sample_state) = Inr sample_expiries"
  by (simp add: get_option_expire_date_eq Let_def requests_issued_def sample_state_def
        single_pair_env_def sample_response_def single_pair_parse_def sample_expiration_dates)

lemma single_pair_reply:
  "0 < k \<Longrightarrow> chain_reply single_pair_env self k u d = Inr single_pair_chain"
  by (simp add: chain_reply_def single_pair_env_def sample_response_def single_pair_parse_def)

lemma single_pair_entries:
  "0 < k \<Longrightarrow> chain_entries single_pair_env self k u d = Inl TypeError"
  by (simp add: chain_entries_def single_pair_reply single_pair_chain_def puts_then_calls_def)

text \<open>
  C1. The claim asks only that the dates arrive and that every chain fetch succeeds.
  With the third server the expiration-date operation returns three distinct dates and
  the chain fetch of each of them returns its decoded response, yet
  \<^verbatim>\<open>get_all_option_chains\<close> returns no mapping: the loop iterates over the keys of
  the one option pair, \<^verbatim>\<open>'Call'['Put']\<close> raises \<^verbatim>\<open>TypeError\<close>, and the call
  ends after 2 of the 4 requests. (With chains of two or more pairs the call does what
  the claim says: \<open>all_option_chains_requests_and_keys\<close>.)
\<close>

theorem all_option_chains_single_pair:
  "snd (get_option_expire_date single_pair_env ''AAPL'' sample_state) = Inr sample_expiries \<and>
   distinct sample_expiries \<and> length sample_expiries = 3 \<and>
   map (\<lambda>i. chain_reply single_pair_env (market sample_state)
               (Suc (requests_issued sample_state) + i) ''AAPL'' (sample_expiries ! i)) [0, 1, 2] =
     [Inr single_pair_chain, Inr single_pair_chain, Inr single_pair_chain] \<and>
   snd (fetch_chain single_pair_env ''AAPL'' (sample_expiries ! 0)
          (fst (get_option_expire_date single_pair_env ''AAPL'' sample_state))) =
     Inr single_pair_chain \<and>
   snd (get_all_option_chains single_pair_env ''AAPL'' sample_state) = Inl TypeError \<and>
   requests_issued (fst (get_all_option_chains single_pair_env ''AAPL'' sample_state)) = 2"
proof -
  let ?s1 = "fst (get_option_expire_date single_pair_env ''AAPL'' sample_state)"
  have n: "requests_issued sample_state = 0"
    by (simp add: requests_issued_def sample_state_def)
  have n1: "requests_issued ?s1 = Suc 0"
    by (simp add: expire_date_issued n)
  have d: "distinct sample_expiries" "length sample_expiries = 3"
    by (simp_all add: sample_expiries_def)
  have fetch: "snd (fetch_chain single_pair_env ''AAPL'' (sample_expiries ! 0) ?s1) =
      Inr single_pair_chain"
    by (simp add: fetch_chain_result n1 single_pair_reply)
  have first: "chain_entries single_pair_env (market ?s1) (requests_issued ?s1) ''AAPL''
      \<lparr>year = 2025, month = 1, day = 17\<rparr> = Inl TypeError"
    by (simp add: n1 single_pair_entries)
  have run: "all_chains_loop single_pair_env ''AAPL'' sample_expiries [] ?s1 =
      (fst (fetch_chain single_pair_env ''AAPL'' \<lparr>year = 2025, month = 1, day = 17\<rparr> ?s1),
       Inl TypeError)"
    unfolding sample_expiries_def loop_Cons first by simp
  have all: "get_all_option_chains single_pair_env ''AAPL'' sample_state =
      (fst (fetch_chain single_pair_env ''AAPL'' \<lparr>year = 2025, month = 1, day = 17\<rparr> ?s1),
       Inl TypeError)"
    by (simp add: get_all_option_chains_eq single_pair_expire_run run)
  have issued: "requests_issued (fst (get_all_option_chains single_pair_env ''AAPL'' sample_state)) = 2"
    by (simp add: all fetch_chain_issued n1)
  show ?thesis
    using single_pair_expire_run d fetch all issued
    by (simp add: n single_pair_reply)
qed

text \<open>
  C2. Whatever \<^verbatim>\<open>get_all_option_chains\<close> stores for an expiration date is the
  puts of the option pairs of a chain response fetched for that date, in the order of
  the pairs, followed by the calls of the same pairs in the same order. The sample run
  has two pairs per date and stores \<open>[P1, P2, C1, C2]\<close> for each.
\<close>

theorem stored_entries_are_puts_then_calls:
  assumes "snd (get_all_option_chains env u s) = Inr rtn"
    and "(d, entries) \<in> set rtn"
  shows "\<exists>dates i q r chains pairs puts calls.
           snd (get_option_expire_date env u s) = Inr dates \<and>
           i < length dates \<and> dates ! i = d \<and>
           chain_reply env (market s) (Suc (requests_issued s) + i) u d = Inr q \<and>
           getitem q ''OptionChainResponse'' = Inr r \<and>
           getitem r ''OptionPair'' = Inr chains \<and>
           py_iter chains = Inr pairs \<and>
           list_all2 (\<lambda>pair put. getitem pair ''Put'' = Inr put) pairs puts \<and>
           list_all2 (\<lambda>pair call. getitem pair ''Call'' = Inr call) pairs calls \<and>
           entries = puts @ calls"
proof -
  let ?s1 = "fst (get_option_expire_date env u s)"
  from assms(1) obtain dates where
    dates: "snd (get_option_expire_date env u s) = Inr dates"
    and run: "snd (all_chains_loop env u dates [] ?s1) = Inr rtn"
    by (auto simp: get_all_option_chains_eq split: sum.splits)
  from run have "all_chains_loop env u dates [] ?s1 = (fst (all_chains_loop env u dates [] ?s1), Inr rtn)"
    by (metis prod.collapse)
  from loop_values [OF this assms(2)] obtain i where
    i: "i < length dates" "dates ! i = d"
    and v: "chain_entries env (market s) (Suc (requests_issued s) + i) u d = Inr entries"
    by (auto simp: expire_date_market expire_date_issued)
  from v obtain q where
    q: "chain_reply env (market s) (Suc (requests_issued s) + i) u d = Inr q"
    and e: "puts_then_calls q = Inr entries"
    by (auto simp: chain_entries_def bind_e_def split: sum.splits)
  from e obtain r chains pairs puts calls where
    "getitem q ''OptionChainResponse'' = Inr r" "getitem r ''OptionPair'' = Inr chains"
    "py_iter chains = Inr pairs"
    "list_all2 (\<lambda>pair put. getitem pair ''Put'' = Inr put) pairs puts"
    "list_all2 (\<lambda>pair call. getitem pair ''Call'' = Inr call) pairs calls"
    "entries = puts @ calls"
    unfolding puts_then_calls_Inr by blast
  with dates i q show ?thesis by blast
qed

theorem stored_entries_are_puts_then_calls_witness:
  "snd (get_all_option_chains sample_env ''AAPL'' sample_state) =
     Inr (map (\<lambda>d. (d, [sample_option ''PUT'' ''100'', sample_option ''PUT'' ''105'',
                          sample_option ''CALL'' ''100'', sample_option ''CALL'' ''105'']))
            sample_expiries) \<and>
   (\<exists>dates i q r chains pairs puts calls.
      snd (get_option_expire_date sample_env ''AAPL'' sample_state) = Inr dates \<and>
      i < length dates \<and> dates ! i = \<lparr>year = 2025, month = 2, day = 21\<rparr> \<and>
      chain_reply sample_env (market sample_state) (Suc (requests_issued sample_state) + i)
        ''AAPL'' \<lparr>year = 2025, month = 2, day = 21\<rparr> = Inr q \<and>
      getitem q ''OptionChainResponse'' = Inr r \<and>
      getitem r ''OptionPair'' = Inr chains \<and>
      py_iter chains = Inr pairs \<and>
      list_all2 (\<lambda>pair put. getitem pair ''Put'' = Inr put) pairs puts \<and>
      list_all2 (\<lambda>pair call. getitem pair ''Call'' = Inr call) pairs calls \<and>
      [sample_option ''PUT'' ''100'', sample_option ''PUT'' ''105'',
       sample_option ''CALL'' ''100'', sample_option ''CALL'' ''105''] = puts @ calls)"
proof -
  have "(\<lparr>year = 2025, month = 2, day = 21\<rparr>,
         [sample_option ''PUT'' ''100'', sample_option ''PUT'' ''105'',
          sample_option ''CALL'' ''100'', sample_option ''CALL'' ''105''])
        \<in> set (map (\<lambda>d. (d, [sample_option ''PUT'' ''100'', sample_option ''PUT'' ''105'',
                          sample_option ''CALL'' ''100'', sample_option ''CALL'' ''105'']))
            sample_expiries)"
    by (simp add: sample_expiries_def)
  from stored_entries_are_puts_then_calls [OF sample_all_run this] sample_all_run
  show ?thesis by blast
qed

text \<open>
  C3. When the processing of some date raises (the transport or the decoder in the
  chain fetch, or the reading of the puts and calls) and the dates before it were
  processed, \<^verbatim>\<open>get_all_option_chains\<close> raises the same exception and issues no
  further request. It returns a mapping only when every date was processed: there is
  no partial result.
\<close>

theorem chain_fetch_error_propagates:
  assumes "snd (get_option_expire_date env u s) = Inr dates"
  shows "(\<forall>k e. k < length dates \<and>
            (\<forall>i<k. chain_ok env (market s) (Suc (requests_issued s) + i) u (dates ! i)) \<and>
            chain_entries env (market s) (Suc (requests_issued s) + k) u (dates ! k) = Inl e
            \<longrightarrow> snd (get_all_option_chains env u s) = Inl e \<and>
                requests_issued (fst (get_all_option_chains env u s)) =
                  requests_issued s + 1 + (k + 1)) \<and>
         (\<forall>rtn. snd (get_all_option_chains env u s) = Inr rtn
            \<longrightarrow> (\<forall>i<length dates.
                   chain_ok env (market s) (Suc (requests_issued s) + i) u (dates ! i)))"
proof (intro conjI allI impI)
  fix k e
  let ?s1 = "fst (get_option_expire_date env u s)"
  assume a: "k < length dates \<and>
            (\<forall>i<k. chain_ok env (market s) (Suc (requests_issued s) + i) u (dates ! i)) \<and>
            chain_entries env (market s) (Suc (requests_issued s) + k) u (dates ! k) = Inl e"
  then have k: "k < length dates"
    and ok: "\<forall>i<k. chain_ok env (market ?s1) (requests_issued ?s1 + i) u (dates ! i)"
    and bad: "chain_entries env (market ?s1) (requests_issued ?s1 + k) u (dates ! k) = Inl e"
    by (simp_all add: expire_date_market expire_date_issued)
  from loop_failure [OF k ok bad, of "[]"] obtain s' where
    run: "all_chains_loop env u dates [] ?s1 = (s', Inl e)"
    and urls: "request_urls (events s') =
                 request_urls (events ?s1) @ map (chains_url (market ?s1) u) (take (Suc k) dates)"
    by blast
  have all: "get_all_option_chains env u s = (s', Inl e)"
    by (simp add: get_all_option_chains_eq assms run)
  have "requests_issued s' = requests_issued s + 1 + (k + 1)"
    using urls k by (simp add: requests_issued_def expire_date_requests)
  with all show "snd (get_all_option_chains env u s) = Inl e"
    and "requests_issued (fst (get_all_option_chains env u s)) = requests_issued s + 1 + (k + 1)"
    by simp_all
next
  fix rtn i
  let ?s1 = "fst (get_option_expire_date env u s)"
  assume r: "snd (get_all_option_chains env u s) = Inr rtn" and i: "i < length dates"
  from r have "snd (all_chains_loop env u dates [] ?s1) = Inr rtn"
    by (simp add: get_all_option_chains_eq assms)
  then have "all_chains_loop env u dates [] ?s1 = (fst (all_chains_loop env u dates [] ?s1), Inr rtn)"
    by (metis prod.collapse)
  from loop_complete [OF this] i
  show "chain_ok env (market s) (Suc (requests_issued s) + i) u (dates ! i)"
    by (simp add: expire_date_market expire_date_issued)
qed

theorem chain_fetch_error_propagates_witness:
  "snd (get_option_expire_date flaky_env ''AAPL'' sample_state) = Inr sample_expiries \<and>
   length sample_expiries = 3 \<and>
   chain_entries flaky_env (market sample_state) 2 ''AAPL'' (sample_expiries ! 1) =
     Inl (TransportError ''503 Server Error'') \<and>
   snd (get_all_option_chains flaky_env ''AAPL'' sample_state) =
     Inl (TransportError ''503 Server Error'') \<and>
   requests_issued (fst (get_all_option_chains flaky_env ''AAPL'' sample_state)) = 3"
proof -
  have n: "requests_issued sample_state = 0"
    by (simp add: requests_issued_def sample_state_def)
  have len: "length sample_expiries = 3"
    by (simp add: sample_expiries_def)
  have bad: "chain_entries flaky_env (market sample_state) 2 ''AAPL'' (sample_expiries ! 1) =
      Inl (TransportError ''503 Server Error'')"
    by (simp add: flaky_second_fails)
  have "(1::nat) < length sample_expiries \<and>
        (\<forall>i<1. chain_ok flaky_env (market sample_state) (Suc (requests_issued sample_state) + i)
                  ''AAPL'' (sample_expiries ! i)) \<and>
        chain_entries flaky_env (market sample_state) (Suc (requests_issued sample_state) + 1)
          ''AAPL'' (sample_expiries ! 1) = Inl (TransportError ''503 Server Error'')"
    by (simp add: n len flaky_first_ok flaky_second_fails)
  with chain_fetch_error_propagates [OF flaky_expire_run] n
  have "snd (get_all_option_chains flaky_env ''AAPL'' sample_state) =
          Inl (TransportError ''503 Server Error'') \<and>
        requests_issued (fst (get_all_option_chains flaky_env ''AAPL'' sample_state)) = 3"
    by fastforce
  with flaky_expire_run len bad show ?thesis by simp
qed

subsection \<open>The request builders\<close>

text \<open>
  C4. The claim is that a count given for the number of strikes is serialized as
  \<^verbatim>\<open>noOfStrikes=N\<close> and the builder completes. The call
  \<^verbatim>\<open>get_option_chains('AAPL', None, noOfStrikes=5)\<close> raises
  \<^verbatim>\<open>AttributeError\<close> instead, and leaves no request behind.
\<close>

theorem no_of_strikes_raises:
  "get_option_chains sample_env ''AAPL'' None None None None (Some 5) None None sample_state =
     (sample_state, Inl AttributeError)"
  by (rule no_of_strikes_always_raises)

text \<open>
  With a list of more than 25 symbols, \<^verbatim>\<open>get_quote\<close> requests the URL with the
  first 25 symbols, comma-joined in their order, and emits exactly one warning; with a
  list of at most 25 it requests the URL with all the symbols and emits no warning.
\<close>

lemma quote_list_uses_first_25_symbols:
  assumes "detail_flag \<in> set (map Some detail_flags @ [None])"
  shows "(25 < length symbols \<longrightarrow>
            request_urls (events (fst (get_quote env (ListOf symbols) detail_flag red smoc rf s))) =
              request_urls (events s) @
              [base_url (market s) @ ''quote/'' @ join '','' (take 25 symbols) @
               quote_tail rf (quote_args detail_flag red smoc)] \<and>
            warnings (events (fst (get_quote env (ListOf symbols) detail_flag red smoc rf s))) =
              warnings (events s) @
              [''get_quote asked for '' @ str_nat (length symbols) @
               '' requests; only first 25 returned'']) \<and>
         (length symbols \<le> 25 \<longrightarrow>
            request_urls (events (fst (get_quote env (ListOf symbols) detail_flag red smoc rf s))) =
              request_urls (events s) @
              [base_url (market s) @ ''quote/'' @ join '','' symbols @
               quote_tail rf (quote_args detail_flag red smoc)] \<and>
            warnings (events (fst (get_quote env (ListOf symbols) detail_flag red smoc rf s))) =
              warnings (events s))"
  by (simp add: get_quote_eq [OF assms] Let_def quote_url_def split: sum.splits)


lemma quote_list_sample:
  "length sample_symbols = 30 \<and>
   request_urls (events (fst (get_quote sample_env (ListOf sample_symbols) None None None ''xml'' sample_state))) =
     [''https://apisb.etrade.com/v1/market/quote/S01,S02,S03,S04,S05,S06,S07,S08,S09,S10,S11,S12,S13,S14,S15,S16,S17,S18,S19,S20,S21,S22,S23,S24,S25''] \<and>
   warnings (events (fst (get_quote sample_env (ListOf sample_symbols) None None None ''xml'' sample_state))) =
     [''get_quote asked for 30 requests; only first 25 returned''] \<and>
   request_urls (events (fst (get_quote sample_env (ListOf [''GOOGL'', ''AAPL'']) None None None ''xml'' sample_state))) =
     [''https://apisb.etrade.com/v1/market/quote/GOOGL,AAPL''] \<and>
   warnings (events (fst (get_quote sample_env (ListOf [''GOOGL'', ''AAPL'']) None None None ''xml'' sample_state))) = []"
proof -
  have legal: "None \<in> set (map Some detail_flags @ [None])"
    by simp
  have len: "length sample_symbols = 30"
    by (simp add: sample_symbols_def)
  have tail: "quote_tail ''xml'' (quote_args None None None) = []"
    by (simp add: quote_tail_def quote_args_def str_lower_def lower_char_def upper_letters_def
          lower_letters_def)
  have base: "base_url (market sample_state) = ''https://apisb.etrade.com/v1/market/''"
    "events sample_state = []"
    by (simp_all add: sample_state_def init_def)
  have msg: "str_nat 30 = ''30''"
    by (simp add: str_nat.simps digit_char_def)
  have first: "join '','' (take 25 sample_symbols) =
      ''S01,S02,S03,S04,S05,S06,S07,S08,S09,S10,S11,S12,S13,S14,S15,S16,S17,S18,S19,S20,S21,S22,S23,S24,S25''"
    by (simp add: sample_symbols_def)
  from quote_list_uses_first_25_symbols [OF legal, of sample_symbols sample_env None None "''xml''" sample_state]
       quote_list_uses_first_25_symbols [OF legal, of "[''GOOGL'', ''AAPL'']" sample_env None None "''xml''" sample_state]
  show ?thesis
    unfolding len tail base msg first by simp
qed

text \<open>
  C5. The claim is about every sequence of symbols. A list is handled as claimed
  (\<open>quote_list_uses_first_25_symbols\<close>). A tuple, which the assertion
  \<^verbatim>\<open>isinstance(symbols, list or tuple)\<close> is written to accept, is refused: with a
  tuple of 30 symbols \<^verbatim>\<open>get_quote\<close> raises \<^verbatim>\<open>AssertionError\<close>, builds no URL,
  issues no request and emits no warning.
\<close>

theorem quote_rejects_tuple:
  "length sample_symbols = 30 \<and>
   get_quote sample_env (TupleOf sample_symbols) None None None ''xml'' sample_state =
     (sample_state, Inl AssertionError) \<and>
   request_urls (events sample_state) = [] \<and> warnings (events sample_state) = []"
  by (simp add: get_quote_tuple sample_symbols_def sample_state_def)




text \<open>
  C7. With a strike price and legal values for the other parameters,
  \<^verbatim>\<open>get_option_chains\<close> requests a URL whose query arguments, joined by
  \<^verbatim>\<open>&\<close>, include \<^verbatim>\<open>strikePriceNear=\<close> followed by the price with exactly
  two decimal places: a minus sign when the price is negative, the whole part in
  decimal digits without leading zeros, a point and two digits, where the digits read
  together are the number of hundredths nearest to the price (a tie going to the even
  one). The price 123.4 (the float \<open>4341751515761869 / 2 ^ 45\<close>) is serialized as
  \<^verbatim>\<open>123.40\<close>.
\<close>

theorem strike_price_two_decimals:
  assumes "chainType \<in> set [Some ''put'', Some ''call'', Some ''callput'', None]"
    and "optionCategory \<in> set [Some ''standard'', Some ''all'', Some ''mini'', None]"
    and "priceType \<in> set [Some ''atmn'', Some ''all'', None]"
  shows "(\<exists>before after.
            request_urls (events (fst (get_option_chains env underlier expiry_date skipAdjusted
                chainType (Some x) None optionCategory priceType s))) =
              request_urls (events s) @
              [base_url (market s) @ ''optionchains?'' @
               join ''&'' (before @ [''strikePriceNear='' @ format_2f x] @ after)]) \<and>
         (\<exists>whole d1 d2 h.
            format_2f x = (if negative x then ''-'' else []) @ whole @ ''.'' @ [d1, d2] \<and>
            digits_value 0 (whole @ [d1, d2]) = Some h \<and>
            whole \<noteq> [] \<and> (whole = ''0'' \<or> hd whole \<noteq> CHR ''0'') \<and>
            \<bar>100 * magnitude x - of_nat h\<bar> \<le> 1 / 2 \<and>
            (\<bar>100 * magnitude x - of_nat h\<bar> = 1 / 2 \<longrightarrow> even h))"
proof -
  define before where "before = [''symbol='' @ underlier] @
      (case expiry_date of None \<Rightarrow> []
       | Some d \<Rightarrow> [''expiryDay='' @ zero_pad 2 (day d) @ ''&expiryMonth='' @ zero_pad 2 (month d) @
                    ''&expiryYear='' @ zero_pad 4 (year d)])"
  define after where "after =
      (case chainType of None \<Rightarrow> [] | Some c \<Rightarrow> [''chainType='' @ str_upper c]) @
      (case optionCategory of None \<Rightarrow> [] | Some c \<Rightarrow> [''optionCategory='' @ str_upper c]) @
      (case priceType of None \<Rightarrow> [] | Some c \<Rightarrow> [''priceType='' @ str_upper c]) @
      (case skipAdjusted of None \<Rightarrow> [] | Some b \<Rightarrow> [''skipAdjusted='' @ str_bool b])"
  have a: "py_assert (chainType \<in> set [Some ''put'', Some ''call'', Some ''callput'', None]) = Inr ()"
    "py_assert (optionCategory \<in> set [Some ''standard'', Some ''all'', Some ''mini'', None]) = Inr ()"
    "py_assert (priceType \<in> set [Some ''atmn'', Some ''all'', None]) = Inr ()"
    using assms by (simp_all only: py_assert_def if_True)
  have b: "py_assert (skipAdjusted \<in> set [Some True, Some False, None]) = Inr ()"
    using bool_flag_legal [of skipAdjusted] by (simp only: py_assert_def if_True)
  have args: "option_chains_args underlier expiry_date skipAdjusted chainType (Some x) None
                optionCategory priceType =
              Inr (before @ [''strikePriceNear='' @ format_2f x] @ after)"
    unfolding option_chains_args_def a b before_def after_def by simp
  have "request_urls (events (fst (get_option_chains env underlier expiry_date skipAdjusted
                chainType (Some x) None optionCategory priceType s))) =
              request_urls (events s) @
              [base_url (market s) @ ''optionchains?'' @
               join ''&'' (before @ [''strikePriceNear='' @ format_2f x] @ after)]"
    unfolding get_option_chains_def args
    by (simp add: bind_m_session_get Let_def option_chains_url_def lift_m_def split: sum.splits)
  with format_2f_value [of x] show ?thesis by blast
qed

theorem strike_price_two_decimals_witness:
  "request_urls (events (fst (get_option_chains sample_env ''AAPL'' None None None
       (Some (Float False 4341751515761869 (- 45))) None None None sample_state))) =
     [''https://apisb.etrade.com/v1/market/optionchains?symbol=AAPL&strikePriceNear=123.40''] \<and>
   format_2f (Float False 4341751515761869 (- 45)) = ''123.40'' \<and>
   (\<exists>whole d1 d2 h.
      format_2f (Float False 4341751515761869 (- 45)) =
        (if negative (Float False 4341751515761869 (- 45)) then ''-'' else []) @
        whole @ ''.'' @ [d1, d2] \<and>
      digits_value 0 (whole @ [d1, d2]) = Some h \<and>
      whole \<noteq> [] \<and> (whole = ''0'' \<or> hd whole \<noteq> CHR ''0'') \<and>
      \<bar>100 * magnitude (Float False 4341751515761869 (- 45)) - of_nat h\<bar> \<le> 1 / 2 \<and>
      (\<bar>100 * magnitude (Float False 4341751515761869 (- 45)) - of_nat h\<bar> = 1 / 2
         \<longrightarrow> even h))"
proof -
  have legal: "None \<in> set [Some ''put'', Some ''call'', Some ''callput'', None]"
    "None \<in> set [Some ''standard'', Some ''all'', Some ''mini'', None]"
    "None \<in> set [Some ''atmn'', Some ''all'', None]"
    by simp_all
  have fmt: "format_2f (Float False 4341751515761869 (- 45)) = ''123.40''"
    by (simp add: format_2f_def hundredths_def round_half_even_def str_nat.simps digit_char_def
          Let_def)
  have url: "request_urls (events (fst (get_option_chains sample_env ''AAPL'' None None None
       (Some (Float False 4341751515761869 (- 45))) None None None sample_state))) =
     [''https://apisb.etrade.com/v1/market/optionchains?symbol=AAPL&strikePriceNear=123.40'']"
    by (simp add: get_option_chains_def option_chains_args_def py_assert_def bind_m_session_get
          Let_def option_chains_url_def lift_m_def fmt sample_state_def init_def
          split: sum.splits)
  from strike_price_two_decimals [OF legal, of sample_env "''AAPL''" None None
         "Float False 4341751515761869 (- 45)" sample_state] url fmt
  show ?thesis by blast
qed

text \<open>
  C8. \<^verbatim>\<open>get_option_expire_date\<close> takes the underlier and nothing else. It issues
  one request, to the base URL followed by
  \<^verbatim>\<open>optionexpiredate?symbol={underlier}&expiryType=ALL\<close>, and what it returns is
  read from the XML decoding of the body of the response: the JSON accessor of the
  response plays no part.
\<close>

theorem expire_date_request_and_decoding:
  "request_urls (events (fst (get_option_expire_date env underlier s))) =
     request_urls (events s) @
     [base_url (market s) @ ''optionexpiredate?symbol='' @ underlier @ ''&expiryType=ALL''] \<and>
   snd (get_option_expire_date env underlier s) =
     bind_e (respond env (session (market s)) (requests_issued s)
               (base_url (market s) @ ''optionexpiredate?symbol='' @ underlier @ ''&expiryType=ALL''))
       (\<lambda>req. bind_e (xml_parse env (resp_text req)) (expiration_dates env))"
  unfolding option_expire_date_url_def [symmetric]
  by (simp add: get_option_expire_date_eq Let_def split: sum.splits)


theorem expire_date_request_and_decoding_witness:
  "request_urls (events (fst (get_option_expire_date sample_env ''AAPL'' sample_state))) =
     [''https://apisb.etrade.com/v1/market/optionexpiredate?symbol=AAPL&expiryType=ALL''] \<and>
   snd (get_option_expire_date sample_env ''AAPL'' sample_state) = Inr sample_expiries"
proof -
  have base: "base_url (market sample_state) = ''https://apisb.etrade.com/v1/market/''"
    "events sample_state = []" "requests_issued sample_state = 0"
    by (simp_all add: sample_state_def init_def requests_issued_def)
  have reply: "respond sample_env sess 0 url = Inr (sample_response ''<dates/>'')" for sess url
    by (simp add: sample_env_def)
  have parse: "xml_parse sample_env (resp_text (sample_response ''<dates/>'')) = Inr sample_dates"
    by (simp add: sample_env_def sample_response_def sample_parse_def)
  have dates: "expiration_dates sample_env sample_dates = Inr sample_expiries"
    by (rule sample_expiration_dates) (simp add: sample_env_def)
  from expire_date_request_and_decoding [of sample_env "''AAPL''" sample_state]
  show ?thesis
    unfolding base reply by (simp add: parse dates)
qed

text \<open>
  C9. \<^verbatim>\<open>look_up_product\<close> requests the base URL followed by
  \<^verbatim>\<open>lookup/\<close> and the search string when the response format is any casing of
  \<^verbatim>\<open>xml\<close>, and the same followed by \<^verbatim>\<open>.json\<close> when it is any casing of
  \<^verbatim>\<open>json\<close> (the casings are spelled out in \<open>xml_casings\<close> and
  \<open>json_casings\<close>).
\<close>

theorem lookup_url_suffix:
  "(str_lower resp_format = ''xml'' \<longrightarrow>
      request_urls (events (fst (look_up_product env search_str resp_format s))) =
        request_urls (events s) @ [base_url (market s) @ ''lookup/'' @ search_str]) \<and>
   (str_lower resp_format = ''json'' \<longrightarrow>
      request_urls (events (fst (look_up_product env search_str resp_format s))) =
        request_urls (events s) @ [base_url (market s) @ ''lookup/'' @ search_str @ ''.json''])"
  by (simp add: look_up_product_eq Let_def lookup_url_def split: sum.splits)

theorem lookup_url_suffix_witness:
  "request_urls (events (fst (look_up_product sample_env ''goog'' ''XmL'' sample_state))) =
     [''https://apisb.etrade.com/v1/market/lookup/goog''] \<and>
   request_urls (events (fst (look_up_product sample_env ''goog'' ''Json'' sample_state))) =
     [''https://apisb.etrade.com/v1/market/lookup/goog.json'']"
proof -
  have low: "str_lower ''XmL'' = ''xml''" "str_lower ''Json'' = ''json''"
    by (simp_all add: str_lower_def lower_char_def upper_letters_def lower_letters_def)
  have base: "base_url (market sample_state) = ''https://apisb.etrade.com/v1/market/''"
    "events sample_state = []"
    by (simp_all add: sample_state_def init_def)
  from lookup_url_suffix [of "''XmL''" sample_env "''goog''" sample_state]
       lookup_url_suffix [of "''Json''" sample_env "''goog''" sample_state]
  show ?thesis
    unfolding low base by simp
qed


subsection \<open>The client object\<close>

text \<open>
  C10. Every operation of the client returns the client object, with its keys, secrets,
  environment flag, base URL and session, as it received it: the fields set by the
  constructor are read and never written.
\<close>

theorem client_unchanged:
  "market (fst (look_up_product env search_str resp_format s)) = market s \<and>
   market (fst (get_quote env symbols detail_flag require_earnings_date skip_mini_options_check
                  resp_format s)) = market s \<and>
   market (fst (get_option_chains env underlier expiry_date skipAdjusted chainType strikePriceNear
                  noOfStrikes optionCategory priceType s)) = market s \<and>
   market (fst (get_option_expire_date env underlier s)) = market s \<and>
   market (fst (get_all_option_chains env underlier s)) = market s"
  by (simp add: keeps_look_up_product [unfolded keeps_market_def]
        keeps_get_quote [unfolded keeps_market_def]
        keeps_get_option_chains [unfolded keeps_market_def]
        keeps_get_option_expire_date [unfolded keeps_market_def]
        keeps_get_all_option_chains [unfolded keeps_market_def])

end
